theory Spec2Isabelle
  imports Main
begin

section \<open>Data model\<close>

text \<open>
  A stored entity is a Django model instance: its primary key \<open>id\<close> (\<open>None\<close> until the
  instance has been saved) and its other attributes. A table (\<open>Model.objects.all()\<close>) and
  every queryset derived from it is the list of its rows, in the queryset's order.
\<close>

datatype fval = IntV int | StrV string

record entity =
  ent_id :: "int option"
  ent_attrs :: "(string \<times> fval) list"

type_synonym queryset = "entity list"

type_synonym user = nat

text \<open>Python truthiness of \<open>obj.id\<close>: \<open>None\<close> and \<open>0\<close> are falsy.\<close>

fun truthy_id :: "int option \<Rightarrow> bool" where
  "truthy_id None = False"
| "truthy_id (Some n) = (n \<noteq> 0)"

text \<open>
  A value of a mutation's input dictionary: \<open>None\<close>, an integer, a string or a list of
  strings.
\<close>

datatype ival = INone | IInt int | IStr string | IList "string list"

text \<open>
  Everything the code raises. \<open>GraphQLError\<close> and \<open>PyException\<close> carry the message the source
  builds; \<open>InstanceDoesNotExist m v\<close> is the \<open>Exception\<close> of \<open>mutations.py\<close> whose message is
  \<open>f"{model_class} instance with ID {id_val} does not exist."\<close>. \<open>AssertionError\<close>,
  \<open>AttributeError\<close>, \<open>ValueError\<close> and \<open>TypeError\<close> are the Python errors of the same names.
  \<open>InvalidOrdering\<close> and \<open>InvalidCursor\<close> are the failures the specification names for the
  ordering call and the cursor codec; \<open>AmbiguousPageBound\<close> is the paginator's
  \<open>ValueError('Cannot process first and last')\<close>.
\<close>

datatype error =
    GraphQLError string
  | PyException string
  | InstanceDoesNotExist string ival
  | NotImplementedError string
  | AssertionError string
  | AttributeError
  | ValueError
  | TypeError
  | InvalidOrdering string
  | AmbiguousPageBound
  | InvalidCursor

text \<open>
  A permission class (\<open>permissions.Permission\<close> and its subclasses). The source instantiates
  it, assigns \<open>queryset\<close> and then calls one method; each method therefore takes the bound
  queryset as an argument.
\<close>

record permission_class =
  get_viewable :: "queryset \<Rightarrow> user \<Rightarrow> queryset"
  can_view :: "queryset \<Rightarrow> user \<Rightarrow> entity \<Rightarrow> bool"
  can_add :: "queryset \<Rightarrow> user \<Rightarrow> entity \<Rightarrow> bool"
  can_change :: "queryset \<Rightarrow> user \<Rightarrow> entity \<Rightarrow> bool"
  can_delete :: "queryset \<Rightarrow> user \<Rightarrow> entity \<Rightarrow> bool"

section \<open>Collaborators of the storage and pagination layer\<close>

text \<open>
  The ordering call \<open>qs.order_by(*tokens)\<close>, the cursor paginator
  (\<open>cursor_pagination.CursorPaginator\<close>) and the queryset intersection of the parent
  connection field are not part of the source files. They are written here after the
  specification's sections 4.1 to 4.5, as far as the source calls them; the paginator's
  \<open>page\<close> follows the library where that is known to differ from the specification.
\<close>

text \<open>
  Modelled from the spec: the OrderSpec of section 3, a sequence of field names with a
  direction, and the token syntax of section 6 (\<open>-field\<close> is descending). The parser of the
  tokens is inside \<open>qs.order_by\<close> and the paginator, which are not among the source files.
\<close>

datatype direction = ASC | DESC

type_synonym order_spec = "(string \<times> direction) list"

fun parse_token :: "string \<Rightarrow> string \<times> direction" where
  "parse_token (c # f) = (if c = CHR ''-'' then (f, DESC) else (c # f, ASC))"
| "parse_token [] = ([], ASC)"

text \<open>
  The attribute of a model instance by name; \<open>id\<close>, and its alias \<open>pk\<close>, is the primary key.
  An instance has the attributes \<open>id\<close>, \<open>pk\<close> and those listed in \<open>ent_attrs\<close>; \<open>getattr\<close> of
  any other name raises \<open>AttributeError\<close>.
\<close>

definition hasattr_ent :: "entity \<Rightarrow> string \<Rightarrow> bool" where
  "hasattr_ent e f = (f = ''id'' \<or> f = ''pk'' \<or> f \<in> set (map fst (ent_attrs e)))"

definition getattr_ent :: "entity \<Rightarrow> string \<Rightarrow> fval option" where
  "getattr_ent e f =
     (if f = ''id'' \<or> f = ''pk'' then map_option IntV (ent_id e) else map_of (ent_attrs e) f)"

text \<open>
  Modelled from the spec: the Cursor of sections 3 and 4.1 (the codec is inside the
  paginator, which is not among the source files): the tuple of the OrderSpec's field
  values of one entity. Its transport encoding (base64 of the values joined by \<open>|\<close>) is
  left out.
\<close>

type_synonym cursor = "fval option list"

text \<open>
  Modelled from the spec: the comparison of field values, which the storage engine (not
  among the source files) makes when it orders a collection or applies a keyset
  predicate: integers by size, strings character by character, an absent value first.
\<close>

fun str_less :: "string \<Rightarrow> string \<Rightarrow> bool" where
  "str_less [] [] = False"
| "str_less [] (y # ys) = True"
| "str_less (x # xs) [] = False"
| "str_less (x # xs) (y # ys) =
     ((of_char x :: nat) < of_char y \<or> (x = y \<and> str_less xs ys))"

fun fval_less :: "fval \<Rightarrow> fval \<Rightarrow> bool" where
  "fval_less (IntV a) (IntV b) = (a < b)"
| "fval_less (StrV a) (StrV b) = str_less a b"
| "fval_less (IntV a) (StrV b) = True"
| "fval_less (StrV a) (IntV b) = False"

fun key_less :: "fval option \<Rightarrow> fval option \<Rightarrow> bool" where
  "key_less None None = False"
| "key_less None (Some b) = True"
| "key_less (Some a) None = False"
| "key_less (Some a) (Some b) = fval_less a b"

text \<open>
  Modelled from the spec: the keyset predicate of section 4.3 (the Paginator is not among
  the source files). \<open>after_key s e vs\<close> holds when \<open>e\<close> lies strictly after the position
  \<open>vs\<close> in the order \<open>s\<close>: \<open>(f1 > v1) OR (f1 = v1 AND f2 > v2) OR ...\<close>, where \<open>>\<close> is \<open><\<close>
  for a descending field. \<open>before_key\<close> inverts the comparators.
\<close>

fun after_key :: "order_spec \<Rightarrow> entity \<Rightarrow> cursor \<Rightarrow> bool" where
  "after_key [] e vs = False"
| "after_key ((f, d) # s) e [] = False"
| "after_key ((f, d) # s) e (v # vs) =
     ((case d of ASC \<Rightarrow> key_less v (getattr_ent e f) | DESC \<Rightarrow> key_less (getattr_ent e f) v)
      \<or> (getattr_ent e f = v \<and> after_key s e vs))"

fun before_key :: "order_spec \<Rightarrow> entity \<Rightarrow> cursor \<Rightarrow> bool" where
  "before_key [] e vs = False"
| "before_key ((f, d) # s) e [] = False"
| "before_key ((f, d) # s) e (v # vs) =
     ((case d of ASC \<Rightarrow> key_less (getattr_ent e f) v | DESC \<Rightarrow> key_less v (getattr_ent e f))
      \<or> (getattr_ent e f = v \<and> before_key s e vs))"

text \<open>
  Modelled from the spec: the position of an entity under an OrderSpec (the values a
  cursor encodes, section 4.1), and the insertion of an entity into a collection ordered
  by the OrderSpec (the storage engine's ordering, which is not among the source files).
\<close>

definition position_of :: "order_spec \<Rightarrow> entity \<Rightarrow> cursor" where
  "position_of s e = map (\<lambda>(f, d). getattr_ent e f) s"

fun insert_by :: "order_spec \<Rightarrow> entity \<Rightarrow> queryset \<Rightarrow> queryset" where
  "insert_by s e [] = [e]"
| "insert_by s e (x # xs) =
     (if after_key s e (position_of s x) then x # insert_by s e xs else e # x # xs)"

text \<open>
  Modelled from the spec: OrderSpec validation (section 4.2) and the ordering of a
  collection, which the source delegates to \<open>qs.order_by\<close>. \<open>registry\<close> is the registry of
  permitted orderable fields for the entity type; the first token whose field is not in it
  fails the call with \<open>InvalidOrdering\<close> naming that field.
\<close>

definition order_by :: "string list \<Rightarrow> queryset \<Rightarrow> string list \<Rightarrow> error + queryset" where
  "order_by registry qs tokens =
     (case find (\<lambda>t. fst (parse_token t) \<notin> set registry) tokens of
        Some t \<Rightarrow> Inl (InvalidOrdering (fst (parse_token t)))
      | None \<Rightarrow> Inr (foldr (insert_by (map parse_token tokens)) qs []))"

text \<open>
  Modelled from the spec: the Paginator of section 4.3 (\<open>CursorPaginator\<close> is a library
  class, not among the source files). It is handed a collection already ordered by the
  OrderSpec, applies the keyset predicates of the boundary cursors, fetches \<open>limit + 1\<close>
  entities and trims to \<open>limit\<close>; \<open>last\<close> works from the end and restores the canonical
  order. Where the library's \<open>page\<close> is known to do otherwise than sections 3 and 7 say, the
  library is followed:
  \<^item> the page size is \<open>first or last\<close>; when that is \<open>None\<close> (neither given, or only a
    zero) the whole collection is returned as one page and no bound is asked for;
  \<^item> the only request refused for its bounds is one with both \<open>first\<close> and \<open>last\<close>, and
    it is refused after the cursors and the slice for \<open>first\<close> have been applied;
  \<^item> a negative size is not refused by the paginator: the slice \<open>qs[:size + 1]\<close> is
    empty for \<open>-1\<close> and is refused by the queryset (negative indexing) below that;
  \<^item> \<open>has_previous\<close> of a forward page and \<open>has_next\<close> of a backward page tell whether the
    \<open>after\<close>, respectively the \<open>before\<close>, cursor was given.
  \<open>cursor\<close> reads each ordering field of the instance with \<open>getattr\<close>.
\<close>

record cursor_paginator =
  pg_queryset :: queryset
  pg_ordering :: "string list"

record cursor_page =
  page_items :: queryset
  page_has_next :: bool
  page_has_previous :: bool

definition paginator_cursor :: "cursor_paginator \<Rightarrow> entity \<Rightarrow> error + cursor" where
  "paginator_cursor p e =
     (let s = map parse_token (pg_ordering p) in
      if list_all (\<lambda>(f, d). hasattr_ent e f) s then Inr (position_of s e)
      else Inl AttributeError)"

text \<open>
  Modelled from the spec: a cursor that does not decode to a position of the OrderSpec is
  an \<open>InvalidCursor\<close> (sections 4.1 and 4.3).
\<close>

definition cursor_ok :: "order_spec \<Rightarrow> cursor option \<Rightarrow> bool" where
  "cursor_ok s c = (case c of None \<Rightarrow> True | Some vs \<Rightarrow> length vs = length s)"

text \<open>\<open>bool(cursor)\<close>: \<open>None\<close> and the empty cursor string (an empty position) are falsy.\<close>

definition cursor_given :: "cursor option \<Rightarrow> bool" where
  "cursor_given c = (case c of None \<Rightarrow> False | Some vs \<Rightarrow> vs \<noteq> [])"

definition keyset_window ::
  "order_spec \<Rightarrow> queryset \<Rightarrow> cursor option \<Rightarrow> cursor option \<Rightarrow> queryset" where
  "keyset_window s qs before_cursor after_cursor =
     filter (\<lambda>e. (case after_cursor of None \<Rightarrow> True | Some vs \<Rightarrow> after_key s e vs)
                \<and> (case before_cursor of None \<Rightarrow> True | Some vs \<Rightarrow> before_key s e vs)) qs"

text \<open>Python's \<open>first or last\<close>: \<open>first\<close> unless it is \<open>None\<close> or \<open>0\<close>.\<close>

definition first_or_last :: "int option \<Rightarrow> int option \<Rightarrow> int option" where
  "first_or_last first_n last_n =
     (case first_n of None \<Rightarrow> last_n | Some n \<Rightarrow> if n = 0 then last_n else Some n)"

text \<open>
  The slices \<open>qs[:k]\<close>: a queryset refuses a negative bound (with an \<open>AssertionError\<close>; later
  Django versions raise a \<open>ValueError\<close> with the same message), a Python list counts it
  from the end.
\<close>

definition qs_slice :: "queryset \<Rightarrow> int \<Rightarrow> error + queryset" where
  "qs_slice qs k =
     (if k < 0 then Inl (AssertionError ''Negative indexing is not supported.'')
      else Inr (take (nat k) qs))"

definition py_slice :: "'a list \<Rightarrow> int \<Rightarrow> 'a list" where
  "py_slice xs k = (if k < 0 then take (nat (int (length xs) + k)) xs else take (nat k) xs)"

definition paginator_page ::
  "cursor_paginator \<Rightarrow> int option \<Rightarrow> int option \<Rightarrow> cursor option \<Rightarrow> cursor option
     \<Rightarrow> error + cursor_page" where
  "paginator_page p first_n last_n before_cursor after_cursor =
     (let s = map parse_token (pg_ordering p) in
      case first_or_last first_n last_n of
        None \<Rightarrow>
          Inr \<lparr>page_items = pg_queryset p, page_has_next = False, page_has_previous = False\<rparr>
      | Some page_size \<Rightarrow>
          (if \<not> (cursor_ok s after_cursor \<and> cursor_ok s before_cursor) then Inl InvalidCursor
           else
             (let window = keyset_window s (pg_queryset p) before_cursor after_cursor in
              case (case first_n of None \<Rightarrow> Inr window | Some n \<Rightarrow> qs_slice window (n + 1)) of
                Inl e \<Rightarrow> Inl e
              | Inr sliced \<Rightarrow>
                  (case (case last_n of
                           None \<Rightarrow> Inr sliced
                         | Some m \<Rightarrow>
                             (if first_n \<noteq> None then Inl AmbiguousPageBound
                              else qs_slice (rev sliced) (m + 1))) of
                     Inl e \<Rightarrow> Inl e
                   | Inr fetched \<Rightarrow>
                       (let trimmed = py_slice fetched page_size;
                            items = (if last_n \<noteq> None then rev trimmed else trimmed);
                            has_additional = (length items < length fetched)
                        in if first_n \<noteq> None then
                             Inr \<lparr>page_items = items, page_has_next = has_additional,
                                  page_has_previous = cursor_given after_cursor\<rparr>
                           else
                             Inr \<lparr>page_items = items, page_has_next = cursor_given before_cursor,
                                  page_has_previous = has_additional\<rparr>)))))"

text \<open>
  Modelled from the spec: \<open>merge_querysets\<close>, inherited from the parent connection field
  (not among the source files). Section 4.5 requires that a collection reached through a
  relation is still restricted by the policy's filter: the merge keeps the rows of the
  default queryset, in its order, that the resolver's queryset also holds.
\<close>

definition merge_querysets :: "queryset \<Rightarrow> queryset \<Rightarrow> queryset" where
  "merge_querysets default_queryset qs = filter (\<lambda>e. e \<in> set qs) default_queryset"

section \<open>connections.py\<close>

text \<open>The keyword arguments of a list query: \<open>orderBy\<close> is required by the schema.\<close>

record page_args =
  arg_orderBy :: "string list"
  arg_first :: "int option"
  arg_last :: "int option"
  arg_before :: "cursor option"
  arg_after :: "cursor option"
  arg_filters :: "(string \<times> fval) list"

record edge =
  edge_node :: entity
  edge_cursor :: cursor

record page_info =
  start_cursor :: "cursor option"
  end_cursor :: "cursor option"
  has_previous_page :: bool
  has_next_page :: bool

text \<open>
  A connection object. \<open>conn_iterable\<close> and \<open>conn_length\<close> are the attributes
  \<open>resolve_connection\<close> assigns after the connection has been built.
\<close>

record connection =
  conn_edges :: "edge list"
  conn_page_info :: page_info
  conn_iterable :: "queryset option"
  conn_length :: "nat option"

text \<open>\<open>PermissionedConnectionField.order_queryset\<close>.\<close>

definition order_queryset :: "string list \<Rightarrow> queryset \<Rightarrow> string list \<Rightarrow> error + queryset" where
  "order_queryset registry qs order_by_array = order_by registry qs order_by_array"

definition get_paginator_for_queryset :: "queryset \<Rightarrow> string list \<Rightarrow> cursor_paginator" where
  "get_paginator_for_queryset qs orderings = \<lparr>pg_queryset = qs, pg_ordering = orderings\<rparr>"

text \<open>
  The list comprehension of \<open>connection_from_queryset\<close>: one edge for each item of the
  page, with the cursor the paginator computes for it.
\<close>

fun edges_of :: "cursor_paginator \<Rightarrow> entity list \<Rightarrow> error + edge list" where
  "edges_of paginator [] = Inr []"
| "edges_of paginator (node # nodes) =
     (case paginator_cursor paginator node of
        Inl e \<Rightarrow> Inl e
      | Inr c \<Rightarrow>
          (case edges_of paginator nodes of
             Inl e \<Rightarrow> Inl e
           | Inr es \<Rightarrow> Inr (\<lparr>edge_node = node, edge_cursor = c\<rparr> # es)))"

definition connection_from_queryset :: "queryset \<Rightarrow> page_args \<Rightarrow> error + connection" where
  "connection_from_queryset qs args =
     (let orderings = arg_orderBy args;
          paginator = get_paginator_for_queryset qs orderings
      in case paginator_page paginator (arg_first args) (arg_last args)
                (arg_before args) (arg_after args) of
           Inl e \<Rightarrow> Inl e
         | Inr page \<Rightarrow>
             (case edges_of paginator (page_items page) of
                Inl e \<Rightarrow> Inl e
              | Inr edges \<Rightarrow>
                  (let first_edge_cursor =
                         (case edges of [] \<Rightarrow> None | e # es \<Rightarrow> Some (edge_cursor e));
                       last_edge_cursor =
                         (if edges = [] then None else Some (edge_cursor (last edges)))
                   in Inr \<lparr>conn_edges = edges,
                           conn_page_info = \<lparr>start_cursor = first_edge_cursor,
                                             end_cursor = last_edge_cursor,
                                             has_previous_page = page_has_previous page,
                                             has_next_page = page_has_next page\<rparr>,
                           conn_iterable = None,
                           conn_length = None\<rparr>)))"

text \<open>
  What a field resolver hands to \<open>resolve_connection\<close>: a queryset (or a manager, which
  \<open>maybe_queryset\<close> turns into one) or some other Python iterable.
\<close>

datatype iterable = QuerySet queryset | PyList "entity list"

text \<open>
  \<open>PermissionedConnectionField.resolve_connection\<close>. \<open>default_manager\<close> is the queryset the
  parent resolver passes. With \<open>iterable = None\<close> the default queryset itself is paginated
  (\<open>iterable is default_manager\<close>); any other queryset is first merged with it. A plain
  list is counted with \<open>len\<close> and handed to the paginator as it is; it has no queryset
  interface for the paginator to order and filter, so no page is built from it.
\<close>

definition resolve_connection :: "queryset \<Rightarrow> page_args \<Rightarrow> iterable option \<Rightarrow> error + connection" where
  "resolve_connection default_manager args iterable =
     (case (case iterable of None \<Rightarrow> QuerySet default_manager | Some it \<Rightarrow> it) of
        QuerySet qs \<Rightarrow>
          (let it = (if iterable = None then qs else merge_querysets default_manager qs);
               len = length it
           in case connection_from_queryset it args of
                Inl e \<Rightarrow> Inl e
              | Inr conn \<Rightarrow> Inr (conn\<lparr>conn_iterable := Some it, conn_length := Some len\<rparr>))
      | PyList xs \<Rightarrow> (let len = length xs in Inl AttributeError))"

text \<open>
  Modelled from the spec: the resolver of the parent class
  (\<open>DjangoFilterConnectionField.connection_resolver\<close>, not among the source files), which
  \<open>connection_resolver\<close> calls last. After section 4.5, the request's filters are applied to
  the collection handed in, the field's own resolver is asked for an iterable, and
  \<open>resolve_connection\<close> builds the page. Its checks on \<open>max_limit\<close> and
  \<open>enforce_first_or_last\<close> are a parameter, \<open>limits\<close>.
\<close>

definition inherited_connection_resolver ::
  "('r \<Rightarrow> page_args \<Rightarrow> error + iterable option) \<Rightarrow> queryset
     \<Rightarrow> (int option \<Rightarrow> bool \<Rightarrow> page_args \<Rightarrow> error + page_args) \<Rightarrow> int option \<Rightarrow> bool
     \<Rightarrow> (page_args \<Rightarrow> entity \<Rightarrow> bool) \<Rightarrow> 'r \<Rightarrow> page_args \<Rightarrow> error + connection" where
  "inherited_connection_resolver resolver manager_qs limits max_limit enforce_first_or_last
       filterset root args =
     (let qs = filter (filterset args) manager_qs in
      case limits max_limit enforce_first_or_last args of
        Inl e \<Rightarrow> Inl e
      | Inr args' \<Rightarrow>
          (case resolver root args' of
             Inl e \<Rightarrow> Inl e
           | Inr iterable \<Rightarrow> resolve_connection qs args' iterable))"

text \<open>
  \<open>PermissionedConnectionField.connection_resolver\<close>. \<open>default_manager\<close> is the value of
  \<open>default_manager.get_queryset()\<close>, \<open>usr\<close> is \<open>info.context.user\<close>.
\<close>

definition connection_resolver ::
  "string list \<Rightarrow> ('r \<Rightarrow> page_args \<Rightarrow> error + iterable option) \<Rightarrow> queryset
     \<Rightarrow> (int option \<Rightarrow> bool \<Rightarrow> page_args \<Rightarrow> error + page_args) \<Rightarrow> int option \<Rightarrow> bool
     \<Rightarrow> (page_args \<Rightarrow> entity \<Rightarrow> bool) \<Rightarrow> permission_class \<Rightarrow> 'r \<Rightarrow> user \<Rightarrow> page_args
     \<Rightarrow> error + connection" where
  "connection_resolver registry resolver default_manager limits max_limit enforce_first_or_last
       filterset permission_class root usr args =
     (let orderings = arg_orderBy args in
      case order_queryset registry default_manager orderings of
        Inl e \<Rightarrow> Inl e
      | Inr qs \<Rightarrow>
          (let qs' = get_viewable permission_class qs usr in
           inherited_connection_resolver resolver qs' limits max_limit enforce_first_or_last
             filterset root args))"

section \<open>node.py\<close>

text \<open>\<open>PermissionedNode.to_global_id\<close> and \<open>PermissionedNode.from_global_id\<close>.\<close>

definition to_global_id :: "'t \<Rightarrow> 'i \<Rightarrow> 'i" where
  "to_global_id type i = i"

definition from_global_id :: "'g \<Rightarrow> error + 'a" where
  "from_global_id global_id = Inl (NotImplementedError ''from_global_id has yet to be implemented'')"

section \<open>types.py\<close>

text \<open>
  A \<open>PermissionedType\<close> subclass: the name of its model (\<open>cls._meta.model.__name__\<close>) and its
  permission class. The table \<open>cls._meta.model.objects\<close> is passed as \<open>db\<close>.
\<close>

record permissioned_type =
  pt_model_name :: string
  pt_permission_class :: permission_class

definition ensure_user_can_view_instance ::
  "permissioned_type \<Rightarrow> queryset \<Rightarrow> user \<Rightarrow> entity \<Rightarrow> error + unit" where
  "ensure_user_can_view_instance cls db usr inst =
     (if \<not> can_view (pt_permission_class cls) db usr inst
      then Inl (GraphQLError
        (''You do not have permission to view this '' @ pt_model_name cls @ '' instance.''))
      else Inr ())"

text \<open>\<open>Model.objects.get(pk=id)\<close>: \<open>None\<close> stands for \<open>DoesNotExist\<close>.\<close>

definition objects_get :: "queryset \<Rightarrow> int \<Rightarrow> entity option" where
  "objects_get db i = find (\<lambda>e. ent_id e = Some i) db"

text \<open>
  \<open>PermissionedType.get_node\<close>. The message of the first \<open>GraphQLError\<close> is a plain string
  literal in the source (it has no \<open>f\<close> prefix), so it is raised with its braces as written.
\<close>

definition get_node :: "permissioned_type \<Rightarrow> queryset \<Rightarrow> user \<Rightarrow> int \<Rightarrow> error + entity" where
  "get_node cls db usr i =
     (case objects_get db i of
        None \<Rightarrow> Inl (GraphQLError ''Requested {cls._meta.model.__name__} instance does not exist.'')
      | Some inst \<Rightarrow>
          (case ensure_user_can_view_instance cls db usr inst of
             Inl e \<Rightarrow> Inl e
           | Inr _ \<Rightarrow> Inr inst))"

section \<open>fields.py\<close>

text \<open>
  \<open>PermissionedTypeField.get_resolver\<close>: the resolver it returns, given the resolver \<open>res\<close> of
  the parent class. \<open>res\<close> returns \<open>None\<close> or a model instance, or raises; a model instance is
  truthy.
\<close>

definition resolve_with_permission_check ::
  "permissioned_type \<Rightarrow> ('r \<Rightarrow> 'k \<Rightarrow> error + entity option) \<Rightarrow> queryset \<Rightarrow> user
     \<Rightarrow> 'r \<Rightarrow> 'k \<Rightarrow> error + entity option" where
  "resolve_with_permission_check base_type res db usr root kwargs =
     (case res root kwargs of
        Inl e \<Rightarrow> Inl e
      | Inr None \<Rightarrow> Inr None
      | Inr (Some inst) \<Rightarrow>
          (case ensure_user_can_view_instance base_type db usr inst of
             Inl e \<Rightarrow> Inl e
           | Inr _ \<Rightarrow> Inr (Some inst)))"

section \<open>mutations.py\<close>

text \<open>
  The \<open>**input\<close> of a mutation is a dictionary; \<open>input.get(k)\<close> is \<open>map_of inp k\<close>.
  \<open>truthy\<close> is Python's truth value of \<open>input.get(k)\<close>.
\<close>

type_synonym mutation_input = "(string \<times> ival) list"

fun truthy :: "ival option \<Rightarrow> bool" where
  "truthy None = False"
| "truthy (Some INone) = False"
| "truthy (Some (IInt n)) = (n \<noteq> 0)"
| "truthy (Some (IStr s)) = (s \<noteq> [])"
| "truthy (Some (IList l)) = (l \<noteq> [])"

text \<open>
  The result of \<open>get_fields(info)\<close> (\<open>utils.py\<close> is not among the source files; its result is a
  parameter): the fields the caller selected, each with its own sub-selection. A field
  that was not selected is absent, and an empty dictionary is falsy.
\<close>

datatype selection = Selection "(string \<times> selection) list"

fun truthy_selection :: "selection option \<Rightarrow> bool" where
  "truthy_selection None = False"
| "truthy_selection (Some (Selection fs)) = (fs \<noteq> [])"

definition EDGE_ORDER_BY_INPUT_FIELD :: string where
  "EDGE_ORDER_BY_INPUT_FIELD = ''edge_cursor_order_by''"

text \<open>
  The message of the exception \<open>mutate_and_get_payload\<close> raises when the edge is requested
  without an ordering; \<open>CHR 0x60\<close> is the backquote around the two field names.
\<close>

definition missing_edge_ordering_message :: string where
  "missing_edge_ordering_message =
     ''You cannot request the '' @ [CHR 0x60] @ ''edge'' @ [CHR 0x60]
     @ '' field without also specifying an ordering value using ''
     @ [CHR 0x60] @ ''edgeCursorOrderBy'' @ [CHR 0x60] @ '' in the mutation input. ''
     @ ''Otherwise, the mutation handler does not know how to compute the cursor for the resulting edge.''"

definition raise_permission_error :: error where
  "raise_permission_error = GraphQLError ''You do not have permission to perform this mutation''"

text \<open>
  The serializer is the external validator. A serializer class is given by what its
  instances answer, as functions of the keyword arguments they were built with;
  \<open>serializer.instance\<close> is the \<open>instance\<close> argument. \<open>save\<close> writes to the table.
\<close>

record serializer_kwargs =
  kw_instance :: "entity option"
  kw_data :: mutation_input
  kw_request_user :: user

record serializer_class =
  sc_is_valid :: "serializer_kwargs \<Rightarrow> bool"
  sc_errors :: "serializer_kwargs \<Rightarrow> (string \<times> string list) list"
  sc_build_obj :: "serializer_kwargs \<Rightarrow> entity"
  sc_save :: "serializer_kwargs \<Rightarrow> queryset \<Rightarrow> entity \<times> queryset"

record serializer =
  ser_instance :: "entity option"
  ser_is_valid :: bool
  ser_errors :: "(string \<times> string list) list"
  ser_build_obj :: entity
  ser_save :: "queryset \<Rightarrow> entity \<times> queryset"

definition serializer_init :: "serializer_class \<Rightarrow> serializer_kwargs \<Rightarrow> serializer" where
  "serializer_init sc kwargs =
     \<lparr>ser_instance = kw_instance kwargs,
      ser_is_valid = sc_is_valid sc kwargs,
      ser_errors = sc_errors sc kwargs,
      ser_build_obj = sc_build_obj sc kwargs,
      ser_save = sc_save sc kwargs\<rparr>"

text \<open>
  A subclass of \<open>PermissionedSerializerMutation\<close>: \<open>permission_class\<close> and the \<open>_meta\<close> options
  the methods below read. \<open>mc_model_class\<close> is the model's name; its table is passed as \<open>db\<close>.
\<close>

record mutation_class =
  mc_permission_class :: permission_class
  mc_lookup_field :: string
  mc_model_class :: "string option"
  mc_model_operations :: "string list"
  mc_serializer_class :: serializer_class

record error_type =
  et_field :: string
  et_messages :: "string list"

record payload =
  pl_errors :: "error_type list option"
  pl_ok :: bool
  pl_result :: "entity option"
  pl_edge :: "edge option"

text \<open>
  The integer a string denotes: decimal digits with an optional sign. (Python's \<open>int\<close>
  also accepts blanks around the number and underscores between digits; such spellings
  are not told apart from strings it refuses.)
\<close>

fun digits_value :: "nat \<Rightarrow> string \<Rightarrow> nat option" where
  "digits_value acc [] = Some acc"
| "digits_value acc (c # cs) =
     (let k = (of_char c :: nat) in
      if 48 \<le> k \<and> k \<le> 57 then digits_value (10 * acc + (k - 48)) cs else None)"

definition int_of_string :: "string \<Rightarrow> int option" where
  "int_of_string s =
     (case s of
        [] \<Rightarrow> None
      | c # cs \<Rightarrow>
          (if c = CHR ''-'' then
             (if cs = [] then None else map_option (\<lambda>n. - int n) (digits_value 0 cs))
           else if c = CHR ''+'' then
             (if cs = [] then None else map_option int (digits_value 0 cs))
           else map_option int (digits_value 0 (c # cs))))"

text \<open>
  \<open>model_class.objects.filter(id=id_val).first()\<close>. An integer, or a string that denotes
  one, selects the row with that id; \<open>None\<close> matches no row; a string that denotes no
  integer is a \<open>ValueError\<close>, a list a \<open>TypeError\<close>.
\<close>

fun filter_id_first :: "queryset \<Rightarrow> ival \<Rightarrow> error + entity option" where
  "filter_id_first db (IInt n) = Inr (find (\<lambda>e. ent_id e = Some n) db)"
| "filter_id_first db INone = Inr None"
| "filter_id_first db (IStr s) =
     (case int_of_string s of
        None \<Rightarrow> Inl ValueError
      | Some n \<Rightarrow> Inr (find (\<lambda>e. ent_id e = Some n) db))"
| "filter_id_first db (IList l) = Inl TypeError"

text \<open>
  \<open>get_serializer_kwargs\<close>. The first branch is taken when \<open>"update"\<close> is among the model
  operations and \<open>lookup_field in input\<close>; \<open>id_val\<close> is then \<open>input[lookup_field]\<close>.
\<close>

definition get_serializer_kwargs ::
  "mutation_class \<Rightarrow> queryset \<Rightarrow> user \<Rightarrow> mutation_input \<Rightarrow> error + serializer_kwargs" where
  "get_serializer_kwargs cls db usr inp =
     (let lookup_field = mc_lookup_field cls in
      case mc_model_class cls of
        Some model_class \<Rightarrow>
          (case (if ''update'' \<in> set (mc_model_operations cls) then map_of inp lookup_field
                 else None) of
             Some id_val \<Rightarrow>
               (case filter_id_first db id_val of
                  Inl e \<Rightarrow> Inl e
                | Inr None \<Rightarrow> Inl (InstanceDoesNotExist model_class id_val)
                | Inr (Some inst) \<Rightarrow>
                    Inr \<lparr>kw_instance = Some inst, kw_data = inp, kw_request_user = usr\<rparr>)
           | None \<Rightarrow>
               (if ''create'' \<in> set (mc_model_operations cls) then
                  Inr \<lparr>kw_instance = None, kw_data = inp, kw_request_user = usr\<rparr>
                else
                  Inl (PyException (''Invalid update operation. Input parameter '' @ [CHR 0x22]
                         @ lookup_field @ [CHR 0x22] @ '' required.''))))
      | None \<Rightarrow> Inr \<lparr>kw_instance = None, kw_data = inp, kw_request_user = usr\<rparr>)"

text \<open>
  The tokens the paginator iterates over when it is given
  \<open>input.get(EDGE_ORDER_BY_INPUT_FIELD)\<close>: a list of tokens as the schema declares it; a
  string yields its characters; other values are not iterable.
\<close>

fun ordering_tokens :: "ival option \<Rightarrow> error + string list" where
  "ordering_tokens (Some (IList l)) = Inr l"
| "ordering_tokens (Some (IStr s)) = Inr (map (\<lambda>c. [c]) s)"
| "ordering_tokens (Some (IInt n)) = Inl TypeError"
| "ordering_tokens (Some INone) = Inl TypeError"
| "ordering_tokens None = Inl TypeError"

text \<open>
  \<open>_get_edge\<close>: the table \<open>cls._meta.model_class.objects.all()\<close> is \<open>db\<close>. The cursor is read off
  the saved object; an ordering field the object does not have raises \<open>AttributeError\<close>.
\<close>

definition get_edge :: "mutation_class \<Rightarrow> queryset \<Rightarrow> entity \<Rightarrow> string list \<Rightarrow> error + edge" where
  "get_edge cls db obj orderings =
     (case mc_model_class cls of
        None \<Rightarrow> Inl AttributeError
      | Some model_class \<Rightarrow>
          (let paginator = get_paginator_for_queryset db orderings in
           case paginator_cursor paginator obj of
             Inl e \<Rightarrow> Inl e
           | Inr cursor \<Rightarrow> Inr \<lparr>edge_node = obj, edge_cursor = cursor\<rparr>))"

text \<open>
  \<open>_save_and_get_payload\<close>. The result is paired with the table as the call leaves it: an
  error raised after \<open>serializer.save()\<close> leaves the saved row in place.
\<close>

definition save_and_get_payload ::
  "mutation_class \<Rightarrow> serializer \<Rightarrow> queryset \<Rightarrow> mutation_input \<Rightarrow> (error + payload) \<times> queryset" where
  "save_and_get_payload cls serializer db inp =
     (case ser_save serializer db of
        (obj, db') \<Rightarrow>
          (let orderings = map_of inp EDGE_ORDER_BY_INPUT_FIELD in
           if truthy orderings then
             (case ordering_tokens orderings of
                Inl e \<Rightarrow> (Inl e, db')
              | Inr toks \<Rightarrow>
                  (case get_edge cls db' obj toks of
                     Inl e \<Rightarrow> (Inl e, db')
                   | Inr edge \<Rightarrow>
                       (Inr \<lparr>pl_errors = None, pl_ok = True, pl_result = Some obj,
                             pl_edge = Some edge\<rparr>, db')))
           else
             (Inr \<lparr>pl_errors = None, pl_ok = True, pl_result = Some obj, pl_edge = None\<rparr>, db')))"

text \<open>
  \<open>perform_mutate\<close>. \<open>obj.__class__.objects.all()\<close>, bound to the permission instance, is \<open>db\<close>.
  A model instance is truthy, so \<open>serializer.instance or serializer.build_obj()\<close> builds an
  object only when there is no instance.
\<close>

definition perform_mutate ::
  "mutation_class \<Rightarrow> serializer \<Rightarrow> queryset \<Rightarrow> user \<Rightarrow> mutation_input
     \<Rightarrow> (error + payload) \<times> queryset" where
  "perform_mutate cls serializer db usr inp =
     (let obj = (case ser_instance serializer of Some inst \<Rightarrow> inst
                                               | None \<Rightarrow> ser_build_obj serializer);
          perm_inst = mc_permission_class cls;
          has_permission =
            (if truthy_id (ent_id obj) then can_change perm_inst db usr obj
             else can_add perm_inst db usr obj)
      in if \<not> has_permission then (Inl raise_permission_error, db)
         else save_and_get_payload cls serializer db inp)"

definition mutate_and_get_payload ::
  "mutation_class \<Rightarrow> (string \<times> selection) list \<Rightarrow> queryset \<Rightarrow> user \<Rightarrow> mutation_input
     \<Rightarrow> (error + payload) \<times> queryset" where
  "mutate_and_get_payload cls requested_fields db usr inp =
     (if truthy_selection (map_of requested_fields ''edge'')
         \<and> \<not> truthy (map_of inp EDGE_ORDER_BY_INPUT_FIELD)
      then (Inl (PyException missing_edge_ordering_message), db)
      else
        (case get_serializer_kwargs cls db usr inp of
           Inl e \<Rightarrow> (Inl e, db)
         | Inr kwargs \<Rightarrow>
             (let serializer = serializer_init (mc_serializer_class cls) kwargs in
              if ser_is_valid serializer then perform_mutate cls serializer db usr inp
              else
                (Inr \<lparr>pl_errors = Some (map (\<lambda>(key, val). \<lparr>et_field = key, et_messages = val\<rparr>)
                                          (ser_errors serializer)),
                      pl_ok = False, pl_result = None, pl_edge = None\<rparr>, db))))"

section \<open>The test schema\<close>

text \<open>
  The schema of \<open>tests/schema.py\<close> and the requests of \<open>tests/__init__.py\<close>, as concrete
  inputs. A group is visible to, and may be changed or deleted by, the users that belong
  to it; membership is the attribute \<open>user\<close> of a group here. \<open>permissions.Permission\<close>,
  which derives \<open>can_view\<close>, \<open>can_change\<close> and \<open>can_delete\<close>, is not among the source files;
  the tests show them to follow the three querysets.
\<close>

definition DISALLOW_CREATION :: string where
  "DISALLOW_CREATION = ''disallow_creation''"

definition member_of :: "user \<Rightarrow> entity \<Rightarrow> bool" where
  "member_of usr e = (map_of (ent_attrs e) ''user'' = Some (IntV (int usr)))"

definition GroupPermission :: permission_class where
  "GroupPermission =
     \<lparr>get_viewable = (\<lambda>qs usr. filter (member_of usr) qs),
      can_view = (\<lambda>qs usr obj. obj \<in> set (filter (member_of usr) qs)),
      can_add = (\<lambda>qs usr obj. map_of (ent_attrs obj) ''name'' \<noteq> Some (StrV DISALLOW_CREATION)),
      can_change = (\<lambda>qs usr obj. obj \<in> set (filter (member_of usr) qs)),
      can_delete = (\<lambda>qs usr obj. obj \<in> set (filter (member_of usr) qs))\<rparr>"

definition GroupType :: permissioned_type where
  "GroupType = \<lparr>pt_model_name = ''Group'', pt_permission_class = GroupPermission\<rparr>"

definition g1 :: entity where
  "g1 = \<lparr>ent_id = Some 1, ent_attrs = [(''name'', StrV ''g1''), (''user'', IntV 1)]\<rparr>"

definition g0 :: entity where
  "g0 = \<lparr>ent_id = Some 0, ent_attrs = [(''name'', StrV ''g0''), (''user'', IntV 2)]\<rparr>"

definition g2 :: entity where
  "g2 = \<lparr>ent_id = Some 2, ent_attrs = [(''name'', StrV ''g2''), (''user'', IntV 2)]\<rparr>"

text \<open>
  \<open>GroupMutationSerializer\<close> (\<open>fields = ["name"]\<close>): the input is valid when it carries a
  name; \<open>save\<close> appends a new row with the next id, or replaces the name of the instance.
  The serializer's other validators (a group's name is unique) are left out; the requests
  below use names no row has.
\<close>

definition name_of_input :: "mutation_input \<Rightarrow> (string \<times> fval) list" where
  "name_of_input inp =
     (case map_of inp ''name'' of Some (IStr s) \<Rightarrow> [(''name'', StrV s)] | _ \<Rightarrow> [])"

definition next_id :: "queryset \<Rightarrow> int" where
  "next_id db = foldr (\<lambda>e m. case ent_id e of Some n \<Rightarrow> max n m | None \<Rightarrow> m) db 0 + 1"

definition GroupMutationSerializer :: serializer_class where
  "GroupMutationSerializer =
     \<lparr>sc_is_valid = (\<lambda>kw. name_of_input (kw_data kw) \<noteq> []),
      sc_errors = (\<lambda>kw. if name_of_input (kw_data kw) \<noteq> [] then []
                         else [(''name'', [''This field is required.''])]),
      sc_build_obj = (\<lambda>kw. \<lparr>ent_id = None, ent_attrs = name_of_input (kw_data kw)\<rparr>),
      sc_save = (\<lambda>kw db.
         case kw_instance kw of
           None \<Rightarrow>
             (let obj = \<lparr>ent_id = Some (next_id db), ent_attrs = name_of_input (kw_data kw)\<rparr>
              in (obj, db @ [obj]))
         | Some inst \<Rightarrow>
             (let obj = inst\<lparr>ent_attrs := name_of_input (kw_data kw)
                               @ filter (\<lambda>(k, v). k \<noteq> ''name'') (ent_attrs inst)\<rparr>
              in (obj, map (\<lambda>e. if ent_id e = ent_id inst then obj else e) db)))\<rparr>"

text \<open>A serializer whose \<open>build_obj\<close> hands out an object that already carries an id.\<close>

definition PresetIdSerializer :: serializer_class where
  "PresetIdSerializer =
     GroupMutationSerializer
       \<lparr>sc_build_obj := (\<lambda>kw. \<lparr>ent_id = Some 9, ent_attrs = name_of_input (kw_data kw)\<rparr>)\<rparr>"

definition GroupMutation :: mutation_class where
  "GroupMutation =
     \<lparr>mc_permission_class = GroupPermission,
      mc_lookup_field = ''id'',
      mc_model_class = Some ''Group'',
      mc_model_operations = [''create'', ''update'', ''delete''],
      mc_serializer_class = GroupMutationSerializer\<rparr>"

definition create_input :: "string \<Rightarrow> mutation_input" where
  "create_input name = [(''name'', IStr name)]"

definition update_input :: "int \<Rightarrow> string \<Rightarrow> mutation_input" where
  "update_input i name = [(''id'', IInt i), (''name'', IStr name)]"

definition ok_only :: "(string \<times> selection) list" where
  "ok_only = [(''ok'', Selection [])]"

definition ok_and_edge :: "(string \<times> selection) list" where
  "ok_and_edge = [(''ok'', Selection []),
                  (''edge'', Selection [(''cursor'', Selection []),
                                        (''node'', Selection [(''name'', Selection [])])])]"

text \<open>\<open>Group__List(first: 100, orderBy: ["id"])\<close> on the root query.\<close>

definition list_args :: page_args where
  "list_args = \<lparr>arg_orderBy = [''id''], arg_first = Some 100, arg_last = None,
                 arg_before = None, arg_after = None, arg_filters = []\<rparr>"

definition no_limits :: "int option \<Rightarrow> bool \<Rightarrow> page_args \<Rightarrow> error + page_args" where
  "no_limits max_limit enforce_first_or_last args = Inr args"

definition root_resolver :: "unit \<Rightarrow> page_args \<Rightarrow> error + iterable option" where
  "root_resolver root args = Inr None"

definition no_filter :: "page_args \<Rightarrow> entity \<Rightarrow> bool" where
  "no_filter args e = True"

text \<open>
  A registry for the requests below: the two fields of a group they order by. (The model
  has further fields; none of the requests names one of them.)
\<close>

definition group_fields :: "string list" where
  "group_fields = [''id'', ''name'']"

text \<open>
  The check of the parent connection field when \<open>enforce_first_or_last\<close> is set, as the
  test \<open>test_can_list_based_on_permissions_and_filtering\<close> observes it: a request with no
  (truthy) \<open>first\<close> or \<open>last\<close> is refused with a message that begins as below. Its check of
  \<open>max_limit\<close> is left out.
\<close>

definition truthy_int :: "int option \<Rightarrow> bool" where
  "truthy_int v = (case v of None \<Rightarrow> False | Some n \<Rightarrow> n \<noteq> 0)"

definition enforcing_limits :: "int option \<Rightarrow> bool \<Rightarrow> page_args \<Rightarrow> error + page_args" where
  "enforcing_limits max_limit enforce_first_or_last args =
     (if enforce_first_or_last \<and> \<not> (truthy_int (arg_first args) \<or> truthy_int (arg_last args))
      then Inl (AssertionError (''You must provide a '' @ [CHR 0x60] @ ''first'' @ [CHR 0x60]
                  @ '' or '' @ [CHR 0x60] @ ''last'' @ [CHR 0x60]
                  @ '' value to properly paginate''))
      else Inr args)"

section \<open>Auxiliary facts\<close>

lemma serializer_init_simps:
  "ser_instance (serializer_init sc kwargs) = kw_instance kwargs"
  "ser_is_valid (serializer_init sc kwargs) = sc_is_valid sc kwargs"
  "ser_errors (serializer_init sc kwargs) = sc_errors sc kwargs"
  "ser_build_obj (serializer_init sc kwargs) = sc_build_obj sc kwargs"
  "ser_save (serializer_init sc kwargs) = sc_save sc kwargs"
  by (simp_all add: serializer_init_def)

lemma get_edge_permission_class:
  "get_edge (cls\<lparr>mc_permission_class := P\<rparr>) = get_edge cls"
  by (rule ext)+ (simp add: get_edge_def)

lemma save_and_get_payload_permission_class:
  "save_and_get_payload (cls\<lparr>mc_permission_class := P\<rparr>) ser db inp
     = save_and_get_payload cls ser db inp"
  by (auto simp: save_and_get_payload_def get_edge_permission_class Let_def
      split: prod.splits sum.splits)

lemma get_serializer_kwargs_create:
  assumes "''create'' \<in> set (mc_model_operations cls)"
    and "map_of inp (mc_lookup_field cls) = None"
  shows "get_serializer_kwargs cls db usr inp
           = Inr \<lparr>kw_instance = None, kw_data = inp, kw_request_user = usr\<rparr>"
  using assms by (simp add: get_serializer_kwargs_def Let_def split: option.splits)

text \<open>What \<open>get_node\<close> does once the row exists: the policy's \<open>can_view\<close> decides.\<close>

lemma get_node_found:
  assumes "objects_get db i = Some inst"
  shows "get_node cls db usr i
           = (if can_view (pt_permission_class cls) db usr inst then Inr inst
              else Inl (GraphQLError (''You do not have permission to view this ''
                          @ pt_model_name cls @ '' instance.'')))"
  using assms by (simp add: get_node_def ensure_user_can_view_instance_def)

text \<open>Ordering a collection keeps its entities.\<close>

lemma set_insert_by: "set (insert_by s e xs) = insert e (set xs)"
  by (induction xs) auto

lemma set_foldr_insert_by: "set (foldr (insert_by s) qs []) = set qs"
  by (induction qs) (auto simp: set_insert_by)

lemma order_by_Inr_set:
  assumes "order_by registry qs tokens = Inr qs'"
  shows "set qs' = set qs"
  using assms by (auto simp: order_by_def set_foldr_insert_by split: option.splits)

text \<open>A token outside the registry fails the ordering, whatever the collection holds.\<close>

lemma order_by_offending:
  assumes "t \<in> set tokens" and "fst (parse_token t) \<notin> set registry"
  shows "\<exists>t'. t' \<in> set tokens \<and> fst (parse_token t') \<notin> set registry
           \<and> (\<forall>qs. order_by registry qs tokens = Inl (InvalidOrdering (fst (parse_token t'))))"
proof (cases "find (\<lambda>t. fst (parse_token t) \<notin> set registry) tokens")
  case None
  then show ?thesis using assms by (auto simp: find_None_iff)
next
  case (Some t')
  then have "t' \<in> set tokens" and "fst (parse_token t') \<notin> set registry"
    by (auto simp: find_Some_iff)
  then show ?thesis using Some by (auto simp: order_by_def)
qed

text \<open>A page is cut out of the paginator's collection.\<close>

lemma set_keyset_window: "set (keyset_window s qs before_cursor after_cursor) \<subseteq> set qs"
  by (auto simp: keyset_window_def)

lemma qs_slice_Inr:
  assumes "qs_slice qs k = Inr ys"
  shows "set ys \<subseteq> set qs"
  using assms by (auto simp: qs_slice_def split: if_splits dest: in_set_takeD)

lemma set_py_slice: "set (py_slice xs k) \<subseteq> set xs"
  by (auto simp: py_slice_def dest: in_set_takeD)

lemma paginator_page_items:
  assumes "paginator_page p first_n last_n before_cursor after_cursor = Inr page"
  shows "set (page_items page) \<subseteq> set (pg_queryset p)"
proof (cases "first_or_last first_n last_n")
  case None
  with assms show ?thesis by (auto simp: paginator_page_def)
next
  case (Some page_size)
  let ?w = "keyset_window (map parse_token (pg_ordering p)) (pg_queryset p)
              before_cursor after_cursor"
  from assms Some obtain sliced fetched where
    sl: "(case first_n of None \<Rightarrow> Inr ?w | Some n \<Rightarrow> qs_slice ?w (n + 1)) = Inr sliced"
    and fe: "(case last_n of None \<Rightarrow> Inr sliced
              | Some m \<Rightarrow> (if first_n \<noteq> None then Inl AmbiguousPageBound
                            else qs_slice (rev sliced) (m + 1))) = Inr fetched"
    and it: "set (page_items page) = set (py_slice fetched page_size)"
    by (auto simp: paginator_page_def Let_def split: if_splits sum.splits)
  have "set sliced \<subseteq> set ?w"
    using sl qs_slice_Inr by (cases first_n) auto
  moreover have "set fetched \<subseteq> set sliced"
  proof (cases last_n)
    case None
    with fe show ?thesis by simp
  next
    case (Some m)
    with fe have "qs_slice (rev sliced) (m + 1) = Inr fetched"
      by (simp split: if_splits)
    from qs_slice_Inr [OF this] show ?thesis by simp
  qed
  ultimately show ?thesis
    using it set_py_slice [of fetched page_size] set_keyset_window by blast
qed

text \<open>Without a page size the paginator returns the whole collection.\<close>

lemma paginator_page_no_size:
  "paginator_page p None None before_cursor after_cursor
     = Inr \<lparr>page_items = pg_queryset p, page_has_next = False, page_has_previous = False\<rparr>"
  by (simp add: paginator_page_def first_or_last_def)

text \<open>With both \<open>first\<close> and \<open>last\<close> it returns no page.\<close>

lemma paginator_page_both:
  "isl (paginator_page p (Some n) (Some m) before_cursor after_cursor)"
  by (auto simp: paginator_page_def first_or_last_def Let_def split: sum.splits)

lemma paginator_page_both_error:
  assumes "- 1 \<le> n"
    and "cursor_ok (map parse_token (pg_ordering p)) after_cursor"
    and "cursor_ok (map parse_token (pg_ordering p)) before_cursor"
  shows "paginator_page p (Some n) (Some m) before_cursor after_cursor = Inl AmbiguousPageBound"
  using assms by (simp add: paginator_page_def first_or_last_def Let_def qs_slice_def)

text \<open>The edges are the items of the page; only a cursor can fail them.\<close>

lemma edges_of_nodes:
  assumes "edges_of paginator nodes = Inr es"
  shows "map edge_node es = nodes"
  using assms by (induction nodes arbitrary: es) (auto split: sum.splits)

lemma edges_of_error:
  assumes "edges_of paginator nodes = Inl e"
  shows "e = AttributeError"
  using assms
  by (induction nodes) (auto simp: paginator_cursor_def Let_def split: sum.splits if_splits)

lemma connection_from_queryset_Inr:
  assumes "connection_from_queryset qs args = Inr conn"
  shows "\<exists>page. paginator_page (get_paginator_for_queryset qs (arg_orderBy args))
                  (arg_first args) (arg_last args) (arg_before args) (arg_after args) = Inr page
               \<and> map edge_node (conn_edges conn) = page_items page
               \<and> has_next_page (conn_page_info conn) = page_has_next page
               \<and> has_previous_page (conn_page_info conn) = page_has_previous page"
  using assms
  by (auto simp: connection_from_queryset_def Let_def edges_of_nodes split: sum.splits)

lemma connection_from_queryset_nodes:
  assumes "connection_from_queryset qs args = Inr conn"
  shows "edge_node ` set (conn_edges conn) \<subseteq> set qs"
proof -
  from connection_from_queryset_Inr [OF assms] obtain page where
    pg: "paginator_page (get_paginator_for_queryset qs (arg_orderBy args))
           (arg_first args) (arg_last args) (arg_before args) (arg_after args) = Inr page"
    and nodes: "map edge_node (conn_edges conn) = page_items page"
    by blast
  have "set (page_items page) \<subseteq> set qs"
    using paginator_page_items [OF pg] by (simp add: get_paginator_for_queryset_def)
  moreover have "edge_node ` set (conn_edges conn) = set (map edge_node (conn_edges conn))"
    by simp
  ultimately show ?thesis using nodes by simp
qed

text \<open>
  Whatever the field's resolver returns, \<open>resolve_connection\<close> pages and counts rows of the
  default queryset only.
\<close>

lemma resolve_connection_nodes:
  assumes "resolve_connection default_manager args iterable = Inr conn"
  shows "edge_node ` set (conn_edges conn) \<subseteq> set default_manager
       \<and> (\<exists>it. conn_iterable conn = Some it \<and> set it \<subseteq> set default_manager
                \<and> conn_length conn = Some (length it))"
proof -
  define it where "it = (case iterable of None \<Rightarrow> default_manager
                          | Some (QuerySet qs) \<Rightarrow> merge_querysets default_manager qs
                          | Some (PyList xs) \<Rightarrow> [])"
  have sub: "set it \<subseteq> set default_manager"
    by (auto simp: it_def merge_querysets_def split: option.splits iterable.splits)
  obtain c where c: "connection_from_queryset it args = Inr c"
    and conn: "conn = c\<lparr>conn_iterable := Some it, conn_length := Some (length it)\<rparr>"
    using assms
    by (auto simp: resolve_connection_def it_def Let_def
        split: option.splits iterable.splits sum.splits if_splits)
  have "edge_node ` set (conn_edges c) \<subseteq> set it"
    using connection_from_queryset_nodes [OF c] .
  then show ?thesis using sub conn by auto
qed

lemma inherited_connection_resolver_nodes:
  assumes "inherited_connection_resolver resolver manager_qs limits max_limit enforce_first_or_last
             filterset root args = Inr conn"
  shows "edge_node ` set (conn_edges conn) \<subseteq> set manager_qs
       \<and> (\<exists>it. conn_iterable conn = Some it \<and> set it \<subseteq> set manager_qs
                \<and> conn_length conn = Some (length it))"
proof -
  obtain args' iterable where
    "resolve_connection (filter (filterset args) manager_qs) args' iterable = Inr conn"
    using assms
    by (auto simp: inherited_connection_resolver_def Let_def split: sum.splits)
  from resolve_connection_nodes [OF this] show ?thesis by auto
qed

text \<open>A plain list returned by a field's resolver never becomes a page.\<close>

lemma resolve_connection_plain_list:
  "resolve_connection default_manager args (Some (PyList xs)) = Inl AttributeError"
  by (simp add: resolve_connection_def)

text \<open>
  The relation scenario of section 8: both groups are related to the parent the field's
  resolver starts from, yet only the one visible to user 1 is paged and counted.
\<close>

lemma relation_traversal_applies_policy:
  "connection_resolver group_fields (\<lambda>(root::unit) args. Inr (Some (QuerySet [g2, g1])))
       [g1, g2] no_limits None True no_filter GroupPermission () 1 list_args
     = Inr \<lparr>conn_edges = [\<lparr>edge_node = g1, edge_cursor = [Some (IntV 1)]\<rparr>],
            conn_page_info = \<lparr>start_cursor = Some [Some (IntV 1)], end_cursor = Some [Some (IntV 1)],
                              has_previous_page = False, has_next_page = False\<rparr>,
            conn_iterable = Some [g1], conn_length = Some 1\<rparr>"
  by code_simp

text \<open>
  An existing row whose id is \<open>0\<close>: \<open>obj.id\<close> is falsy, so \<open>perform_mutate\<close> asks \<open>can_add\<close>.
  User 1 does not belong to the group and \<open>can_change\<close> would deny, but the update is saved.
\<close>

lemma update_of_id_zero_asks_can_add:
  "\<not> can_change GroupPermission [g0, g1] 1 g0
   \<and> mutate_and_get_payload GroupMutation ok_only [g0, g1] 1 (update_input 0 ''newName'')
       = (Inr \<lparr>pl_errors = None, pl_ok = True,
               pl_result = Some (g0\<lparr>ent_attrs := [(''name'', StrV ''newName''), (''user'', IntV 2)]\<rparr>),
               pl_edge = None\<rparr>,
          [g0\<lparr>ent_attrs := [(''name'', StrV ''newName''), (''user'', IntV 2)]\<rparr>, g1])"
proof -
  have "\<not> can_change GroupPermission [g0, g1] 1 g0"
    by (simp add: GroupPermission_def member_of_def g0_def g1_def)
  moreover have
    "mutate_and_get_payload GroupMutation ok_only [g0, g1] 1 (update_input 0 ''newName'')
       = (Inr \<lparr>pl_errors = None, pl_ok = True,
               pl_result = Some (g0\<lparr>ent_attrs := [(''name'', StrV ''newName''), (''user'', IntV 2)]\<rparr>),
               pl_edge = None\<rparr>,
          [g0\<lparr>ent_attrs := [(''name'', StrV ''newName''), (''user'', IntV 2)]\<rparr>, g1])"
    by code_simp
  ultimately show ?thesis by simp
qed

text \<open>
  The second request of \<open>test_can_list_based_on_permissions_and_filtering\<close>: a list query
  without \<open>first\<close> or \<open>last\<close>. With the parent field's check it is refused before
  \<open>resolve_connection\<close> is reached; without the check the visible group is returned.
\<close>

lemma list_query_without_bound:
  "connection_resolver group_fields root_resolver [g2, g1] enforcing_limits None True no_filter
       GroupPermission () 1 (list_args\<lparr>arg_first := None\<rparr>)
     = Inl (AssertionError (''You must provide a '' @ [CHR 0x60] @ ''first'' @ [CHR 0x60]
              @ '' or '' @ [CHR 0x60] @ ''last'' @ [CHR 0x60] @ '' value to properly paginate''))
   \<and> map edge_node (conn_edges (projr
        (connection_resolver group_fields root_resolver [g2, g1] enforcing_limits None False
           no_filter GroupPermission () 1 (list_args\<lparr>arg_first := None\<rparr>))))
     = [g1]"
  by code_simp

text \<open>
  The cursor of an edge is read off the saved object: an ordering by a field the object
  does not have fails after \<open>serializer.save()\<close>, and the new row stays in the table.
\<close>

lemma edge_ordering_by_missing_field:
  "mutate_and_get_payload GroupMutation ok_and_edge [g1, g2] 1
       [(''name'', IStr ''someGroup''), (''edge_cursor_order_by'', IList [''secret''])]
     = (Inl AttributeError,
        [g1, g2, \<lparr>ent_id = Some 3, ent_attrs = [(''name'', StrV ''someGroup'')]\<rparr>])"
  by code_simp

text \<open>An identifier that arrives as a string of digits selects the row as the integer does.\<close>

lemma filter_id_first_numeric_string:
  "filter_id_first [g1, g2] (IStr ''2'') = Inr (Some g2)
   \<and> filter_id_first [g1, g2] (IStr ''two'') = Inl ValueError
   \<and> filter_id_first [g1, g2] (IList [''2'']) = Inl TypeError"
  by code_simp

section \<open>The claims\<close>

subsection \<open>C1: the viewable filter is applied before pagination\<close>

text \<open>
  C1. For every list-query resolution that returns a connection, the permission policy's
  viewable filter has been applied to the ordered collection before pagination: every
  entity of a returned edge, and every entity of the collection that was paged and
  counted, belongs to \<open>get_viewable\<close> of the ordered base collection for the actor. The
  result is the same for any other base collection with the same viewable part, so page
  boundaries, counts, \<open>hasNextPage\<close> and \<open>hasPreviousPage\<close> reflect visible entities only.
  For a policy whose \<open>get_viewable\<close> is a filter of the queryset it is bound to, every
  returned entity is therefore an entity of the base collection.
\<close>

theorem viewable_filter_before_pagination:
  assumes "connection_resolver registry resolver base limits max_limit enforce_first_or_last
             filterset P root usr args = Inr conn"
  shows "\<exists>ordered.
           order_queryset registry base (arg_orderBy args) = Inr ordered
         \<and> set ordered = set base
         \<and> edge_node ` set (conn_edges conn) \<subseteq> set (get_viewable P ordered usr)
         \<and> (\<exists>it. conn_iterable conn = Some it \<and> set it \<subseteq> set (get_viewable P ordered usr)
                  \<and> conn_length conn = Some (length it))
         \<and> (\<forall>base' ordered'.
               order_queryset registry base' (arg_orderBy args) = Inr ordered'
               \<and> get_viewable P ordered' usr = get_viewable P ordered usr \<longrightarrow>
               connection_resolver registry resolver base' limits max_limit enforce_first_or_last
                 filterset P root usr args = Inr conn)
         \<and> ((\<forall>qs. set (get_viewable P qs usr) \<subseteq> set qs) \<longrightarrow>
               edge_node ` set (conn_edges conn) \<subseteq> set base)"
proof -
  obtain ordered where ord: "order_queryset registry base (arg_orderBy args) = Inr ordered"
    and inh: "inherited_connection_resolver resolver (get_viewable P ordered usr) limits max_limit
                enforce_first_or_last filterset root args = Inr conn"
    using assms by (auto simp: connection_resolver_def Let_def split: sum.splits)
  have same: "set ordered = set base"
    using ord order_by_Inr_set by (simp add: order_queryset_def)
  note nodes = inherited_connection_resolver_nodes [OF inh]
  have indep: "connection_resolver registry resolver base' limits max_limit enforce_first_or_last
                 filterset P root usr args = Inr conn"
    if "order_queryset registry base' (arg_orderBy args) = Inr ordered'
        \<and> get_viewable P ordered' usr = get_viewable P ordered usr" for base' ordered'
    using that inh by (simp add: connection_resolver_def Let_def)
  have contract: "edge_node ` set (conn_edges conn) \<subseteq> set base"
    if "\<forall>qs. set (get_viewable P qs usr) \<subseteq> set qs"
    using that nodes same by blast
  show ?thesis
    using ord same nodes indep contract by blast
qed

text \<open>
  The scenario of section 8: the collection holds \<open>g1\<close> (visible to user 1) and \<open>g2\<close>
  (invisible); \<open>first = 100, orderBy = ["id"]\<close> returns exactly one edge, for \<open>g1\<close>.
\<close>

theorem viewable_filter_before_pagination_witness:
  "connection_resolver group_fields root_resolver [g2, g1] no_limits None True no_filter
       GroupPermission () 1 list_args
     = Inr \<lparr>conn_edges = [\<lparr>edge_node = g1, edge_cursor = [Some (IntV 1)]\<rparr>],
            conn_page_info = \<lparr>start_cursor = Some [Some (IntV 1)], end_cursor = Some [Some (IntV 1)],
                              has_previous_page = False, has_next_page = False\<rparr>,
            conn_iterable = Some [g1], conn_length = Some 1\<rparr>
   \<and> edge_node ` set [\<lparr>edge_node = g1, edge_cursor = [Some (IntV 1)]\<rparr>]
        \<subseteq> set (get_viewable GroupPermission [g1, g2] 1)
   \<and> edge_node ` set [\<lparr>edge_node = g1, edge_cursor = [Some (IntV 1)]\<rparr>] \<subseteq> set [g2, g1]"
proof -
  let ?conn = "\<lparr>conn_edges = [\<lparr>edge_node = g1, edge_cursor = [Some (IntV 1)]\<rparr>],
            conn_page_info = \<lparr>start_cursor = Some [Some (IntV 1)], end_cursor = Some [Some (IntV 1)],
                              has_previous_page = False, has_next_page = False\<rparr>,
            conn_iterable = Some [g1], conn_length = Some 1\<rparr>"
  have run: "connection_resolver group_fields root_resolver [g2, g1] no_limits None True no_filter
       GroupPermission () 1 list_args = Inr ?conn"
    by code_simp
  have ord: "order_queryset group_fields [g2, g1] (arg_orderBy list_args) = Inr [g1, g2]"
    by code_simp
  have contract: "\<forall>qs. set (get_viewable GroupPermission qs 1) \<subseteq> set qs"
    by (simp add: GroupPermission_def)
  from viewable_filter_before_pagination [OF run] obtain ordered where
    o: "order_queryset group_fields [g2, g1] (arg_orderBy list_args) = Inr ordered"
    and v: "edge_node ` set (conn_edges ?conn) \<subseteq> set (get_viewable GroupPermission ordered 1)"
    and b: "(\<forall>qs. set (get_viewable GroupPermission qs 1) \<subseteq> set qs) \<longrightarrow>
              edge_node ` set (conn_edges ?conn) \<subseteq> set [g2, g1]"
    by blast
  from o ord have "ordered = [g1, g2]" by simp
  with v b contract run show ?thesis by simp
qed

subsection \<open>C2: a denied creation\<close>

text \<open>
  C2, as amended. For every create mutation (no identifier in the input) that passes the
  edge precondition and the validation of its input, and whose candidate entity has no
  truthy id and is rejected by the policy's \<open>can_add\<close>, the mutation does not return a
  payload: it raises the permission error \<open>You do not have permission to perform this
  mutation\<close>, and the candidate is not persisted (the collection is unchanged).
\<close>

theorem create_denied_raises:
  assumes "''create'' \<in> set (mc_model_operations cls)"
    and "map_of inp (mc_lookup_field cls) = None"
    and "\<not> (truthy_selection (map_of requested_fields ''edge'')
             \<and> \<not> truthy (map_of inp EDGE_ORDER_BY_INPUT_FIELD))"
    and "kwargs = \<lparr>kw_instance = None, kw_data = inp, kw_request_user = usr\<rparr>"
    and "sc_is_valid (mc_serializer_class cls) kwargs"
    and "obj = sc_build_obj (mc_serializer_class cls) kwargs"
    and "\<not> truthy_id (ent_id obj)"
    and "\<not> can_add (mc_permission_class cls) db usr obj"
  shows "mutate_and_get_payload cls requested_fields db usr inp
           = (Inl (GraphQLError ''You do not have permission to perform this mutation''), db)"
proof -
  let ?ser = "serializer_init (mc_serializer_class cls) kwargs"
  have kw: "get_serializer_kwargs cls db usr inp = Inr kwargs"
    using assms(1,2,4) by (simp add: get_serializer_kwargs_create)
  have inst: "ser_instance ?ser = None"
    using assms(4) by (simp add: serializer_init_simps)
  have "perform_mutate cls ?ser db usr inp = (Inl raise_permission_error, db)"
    using inst assms(6,7,8) by (simp add: perform_mutate_def serializer_init_simps)
  moreover have "mutate_and_get_payload cls requested_fields db usr inp
                   = perform_mutate cls ?ser db usr inp"
    using assms(3,5) kw by (auto simp: mutate_and_get_payload_def serializer_init_simps Let_def)
  ultimately show ?thesis
    by (simp add: raise_permission_error_def)
qed

text \<open>The test \<open>test_can_create_based_on_permissions\<close>: a group named \<open>disallow_creation\<close>.\<close>

theorem create_denied_raises_witness:
  "mutate_and_get_payload GroupMutation ok_only [g1, g2] 1 (create_input DISALLOW_CREATION)
     = (Inl (GraphQLError ''You do not have permission to perform this mutation''), [g1, g2])"
proof -
  let ?kw = "\<lparr>kw_instance = None, kw_data = create_input DISALLOW_CREATION, kw_request_user = 1\<rparr>"
  let ?obj = "sc_build_obj (mc_serializer_class GroupMutation) ?kw"
  have 1: "''create'' \<in> set (mc_model_operations GroupMutation)"
    by (simp add: GroupMutation_def)
  have 2: "map_of (create_input DISALLOW_CREATION) (mc_lookup_field GroupMutation) = None"
    by (simp add: GroupMutation_def create_input_def)
  have 3: "\<not> (truthy_selection (map_of ok_only ''edge'')
             \<and> \<not> truthy (map_of (create_input DISALLOW_CREATION) EDGE_ORDER_BY_INPUT_FIELD))"
    by (simp add: ok_only_def)
  have 5: "sc_is_valid (mc_serializer_class GroupMutation) ?kw"
    by (simp add: GroupMutation_def GroupMutationSerializer_def name_of_input_def create_input_def)
  have 7: "\<not> truthy_id (ent_id ?obj)"
    by (simp add: GroupMutation_def GroupMutationSerializer_def)
  have 8: "\<not> can_add (mc_permission_class GroupMutation) [g1, g2] 1 ?obj"
    by (simp add: GroupMutation_def GroupMutationSerializer_def GroupPermission_def
        name_of_input_def create_input_def)
  show ?thesis
    by (rule create_denied_raises [OF 1 2 3 refl 5 refl 7 8])
qed

text \<open>
  The claim as first stated fails on the same request: the candidate violates \<open>can_add\<close>,
  and the mutation ends in the raised error; no payload, with \<open>ok = false\<close> or otherwise,
  is returned.
\<close>

theorem create_denied_counterexample:
  "\<not> can_add GroupPermission [g1, g2] 1
        \<lparr>ent_id = None, ent_attrs = [(''name'', StrV DISALLOW_CREATION)]\<rparr>
   \<and> fst (mutate_and_get_payload GroupMutation ok_only [g1, g2] 1 (create_input DISALLOW_CREATION))
       = Inl (GraphQLError ''You do not have permission to perform this mutation'')
   \<and> \<not> (\<exists>p. fst (mutate_and_get_payload GroupMutation ok_only [g1, g2] 1
                     (create_input DISALLOW_CREATION)) = Inr p \<and> \<not> pl_ok p)"
proof -
  have run: "mutate_and_get_payload GroupMutation ok_only [g1, g2] 1 (create_input DISALLOW_CREATION)
     = (Inl (GraphQLError ''You do not have permission to perform this mutation''), [g1, g2])"
    by code_simp
  have "\<not> can_add GroupPermission [g1, g2] 1
        \<lparr>ent_id = None, ent_attrs = [(''name'', StrV DISALLOW_CREATION)]\<rparr>"
    by (simp add: GroupPermission_def)
  then show ?thesis using run by simp
qed

subsection \<open>C3: the edge precondition\<close>

text \<open>
  C3. For every mutation request whose result selection requests the edge field while
  the input supplies no edge ordering, the mutation fails with the missing-ordering
  exception before any persistence: the collection is returned unchanged, whatever the
  mutation class, its serializer and its policy are.
\<close>

theorem edge_without_ordering_rejected:
  assumes "truthy_selection (map_of requested_fields ''edge'')"
    and "\<not> truthy (map_of inp EDGE_ORDER_BY_INPUT_FIELD)"
  shows "mutate_and_get_payload cls requested_fields db usr inp
           = (Inl (PyException missing_edge_ordering_message), db)"
  using assms by (simp add: mutate_and_get_payload_def)

text \<open>The first request of \<open>test_optional_ordering_during_creation\<close>.\<close>

theorem edge_without_ordering_rejected_witness:
  "mutate_and_get_payload GroupMutation ok_and_edge [g1, g2] 1 (create_input ''someGroup'')
     = (Inl (PyException missing_edge_ordering_message), [g1, g2])"
proof -
  have 1: "truthy_selection (map_of ok_and_edge ''edge'')"
    by (simp add: ok_and_edge_def)
  have 2: "\<not> truthy (map_of (create_input ''someGroup'') EDGE_ORDER_BY_INPUT_FIELD)"
    by (simp add: create_input_def EDGE_ORDER_BY_INPUT_FIELD_def)
  show ?thesis
    by (rule edge_without_ordering_rejected [OF 1 2])
qed

subsection \<open>C4: single-entity lookup\<close>

text \<open>
  C4. A lookup of an identifier that no entity has fails with a not-found error naming
  the entity type. The code raises the message with its placeholder unfilled: the lookup
  of the absent id 3 among the groups fails with the literal text below, which is not the
  message naming \<open>Group\<close>, and is the same for a type over another model.
\<close>

theorem get_node_missing_message:
  "get_node GroupType [g1, g2] 1 3
     = Inl (GraphQLError ''Requested {cls._meta.model.__name__} instance does not exist.'')
   \<and> get_node GroupType [g1, g2] 1 3
       \<noteq> Inl (GraphQLError ''Requested Group instance does not exist.'')
   \<and> get_node (GroupType\<lparr>pt_model_name := ''Permission''\<rparr>) [g1, g2] 1 3
       = get_node GroupType [g1, g2] 1 3"
  by (simp add: get_node_def objects_get_def g1_def g2_def)

subsection \<open>C5: an ordering outside the registry\<close>

text \<open>
  C5. For every list query whose \<open>orderBy\<close> contains a token whose field is not in the
  registry of permitted orderable fields, the request fails with \<open>InvalidOrdering\<close> naming
  an offending field of the request, and it is rejected before the collection, the
  policy, the filters or the field's resolver play any part: the failure is the same for
  all of them.
\<close>

theorem invalid_ordering_rejected:
  assumes "t \<in> set tokens" and "fst (parse_token t) \<notin> set registry"
  shows "\<exists>t'. t' \<in> set tokens \<and> fst (parse_token t') \<notin> set registry
          \<and> (\<forall>resolver base limits max_limit enforce_first_or_last filterset P (root::'r) usr args.
                arg_orderBy args = tokens \<longrightarrow>
                connection_resolver registry resolver base limits max_limit enforce_first_or_last
                  filterset P root usr args = Inl (InvalidOrdering (fst (parse_token t'))))"
proof -
  obtain t' where t': "t' \<in> set tokens" "fst (parse_token t') \<notin> set registry"
    and all: "\<forall>qs. order_by registry qs tokens = Inl (InvalidOrdering (fst (parse_token t')))"
    using order_by_offending [OF assms] by blast
  have "connection_resolver registry resolver base limits max_limit enforce_first_or_last
          filterset P root usr args = Inl (InvalidOrdering (fst (parse_token t')))"
    if "arg_orderBy args = tokens"
    for resolver :: "'r \<Rightarrow> page_args \<Rightarrow> error + iterable option"
      and base limits max_limit enforce_first_or_last filterset P root usr args
    using that all by (simp add: connection_resolver_def order_queryset_def)
  then show ?thesis using t' by blast
qed

theorem invalid_ordering_rejected_witness:
  "connection_resolver group_fields root_resolver [g2, g1] no_limits None True no_filter
       GroupPermission () 1 (list_args\<lparr>arg_orderBy := [''id'', ''-secret'']\<rparr>)
     = Inl (InvalidOrdering ''secret'')"
proof -
  have 1: "''-secret'' \<in> set [''id'', ''-secret'']" by simp
  have 2: "fst (parse_token ''-secret'') \<notin> set group_fields"
    by (simp add: group_fields_def)
  have 3: "fst (parse_token ''id'') \<in> set group_fields"
    by (simp add: group_fields_def)
  from invalid_ordering_rejected [OF 1 2, where 'r = unit] obtain t' where
    t: "t' \<in> set [''id'', ''-secret'']" "fst (parse_token t') \<notin> set group_fields"
    and r: "\<forall>resolver base limits max_limit enforce_first_or_last filterset P (root::unit) usr args.
             arg_orderBy args = [''id'', ''-secret''] \<longrightarrow>
             connection_resolver group_fields resolver base limits max_limit enforce_first_or_last
               filterset P root usr args = Inl (InvalidOrdering (fst (parse_token t')))"
    by (elim exE conjE)
  from t 3 have "t' = ''-secret''" by auto
  with r [rule_format, of "list_args\<lparr>arg_orderBy := [''id'', ''-secret'']\<rparr>"
        root_resolver "[g2, g1]" no_limits None True no_filter GroupPermission "()" 1]
  show ?thesis by simp
qed

subsection \<open>C6: the bounds of a page request\<close>

text \<open>
  C6, as amended. For every page request in which both \<open>first\<close> and \<open>last\<close> are supplied,
  pagination fails and returns no page; the failure is the ambiguous-bound error unless a
  cursor or a size below \<open>-1\<close> fails the request first. A request with neither \<open>first\<close> nor
  \<open>last\<close> is not refused by pagination: \<open>connection_from_queryset\<close> checks no bound, the
  paginator returns the whole collection as one page with \<open>hasNextPage\<close> and
  \<open>hasPreviousPage\<close> false, and only the computation of a cursor can still fail. A page is
  therefore produced only when at most one of the two is present.
\<close>

theorem both_bounds_refused_neither_paged:
  "(arg_first args \<noteq> None \<and> arg_last args \<noteq> None \<longrightarrow> isl (connection_from_queryset qs args))
   \<and> (\<forall>n m. arg_first args = Some n \<and> arg_last args = Some m \<and> - 1 \<le> n
          \<and> cursor_ok (map parse_token (arg_orderBy args)) (arg_after args)
          \<and> cursor_ok (map parse_token (arg_orderBy args)) (arg_before args) \<longrightarrow>
          connection_from_queryset qs args = Inl AmbiguousPageBound)
   \<and> (arg_first args = None \<and> arg_last args = None \<longrightarrow>
         paginator_page (get_paginator_for_queryset qs (arg_orderBy args)) (arg_first args)
             (arg_last args) (arg_before args) (arg_after args)
           = Inr \<lparr>page_items = qs, page_has_next = False, page_has_previous = False\<rparr>
         \<and> (\<forall>e. connection_from_queryset qs args = Inl e \<longrightarrow> e = AttributeError)
         \<and> (\<forall>conn. connection_from_queryset qs args = Inr conn \<longrightarrow>
               map edge_node (conn_edges conn) = qs
               \<and> \<not> has_next_page (conn_page_info conn)
               \<and> \<not> has_previous_page (conn_page_info conn)))
   \<and> (\<forall>conn. connection_from_queryset qs args = Inr conn \<longrightarrow>
         arg_first args = None \<or> arg_last args = None)"
proof -
  let ?p = "get_paginator_for_queryset qs (arg_orderBy args)"
  have both: "isl (connection_from_queryset qs args)"
    if "arg_first args \<noteq> None \<and> arg_last args \<noteq> None"
  proof -
    from that obtain n m where nm: "arg_first args = Some n" "arg_last args = Some m"
      by auto
    from paginator_page_both [of ?p n m "arg_before args" "arg_after args"] obtain e where
      "paginator_page ?p (Some n) (Some m) (arg_before args) (arg_after args) = Inl e"
      by (auto simp: isl_def)
    with nm show ?thesis
      by (simp add: connection_from_queryset_def)
  qed
  have amb: "connection_from_queryset qs args = Inl AmbiguousPageBound"
    if "arg_first args = Some n \<and> arg_last args = Some m \<and> - 1 \<le> n
          \<and> cursor_ok (map parse_token (arg_orderBy args)) (arg_after args)
          \<and> cursor_ok (map parse_token (arg_orderBy args)) (arg_before args)" for n m
  proof -
    have "paginator_page ?p (Some n) (Some m) (arg_before args) (arg_after args)
            = Inl AmbiguousPageBound"
      using that by (intro paginator_page_both_error) (simp_all add: get_paginator_for_queryset_def)
    with that show ?thesis
      by (simp add: connection_from_queryset_def)
  qed
  have page: "paginator_page ?p (arg_first args) (arg_last args) (arg_before args) (arg_after args)
           = Inr \<lparr>page_items = qs, page_has_next = False, page_has_previous = False\<rparr>"
    if "arg_first args = None \<and> arg_last args = None"
    using that paginator_page_no_size [of ?p "arg_before args" "arg_after args"]
    by (simp add: get_paginator_for_queryset_def)
  have err: "e = AttributeError"
    if "arg_first args = None \<and> arg_last args = None"
      and "connection_from_queryset qs args = Inl e" for e
    using that(2) page [OF that(1)] edges_of_error
    by (auto simp: connection_from_queryset_def Let_def split: sum.splits)
  have whole: "map edge_node (conn_edges conn) = qs
               \<and> \<not> has_next_page (conn_page_info conn)
               \<and> \<not> has_previous_page (conn_page_info conn)"
    if "arg_first args = None \<and> arg_last args = None"
      and "connection_from_queryset qs args = Inr conn" for conn
    using connection_from_queryset_Inr [OF that(2)] page [OF that(1)] by auto
  have only: "arg_first args = None \<or> arg_last args = None"
    if "connection_from_queryset qs args = Inr conn" for conn
    using both that by (cases "arg_first args = None \<or> arg_last args = None") auto
  show ?thesis
    using both amb page err whole only by blast
qed

text \<open>
  A request for the groups with both bounds, and one with neither: the first is refused,
  the second returns both groups.
\<close>

theorem both_bounds_refused_neither_paged_witness:
  "connection_from_queryset [g1, g2] (list_args\<lparr>arg_last := Some 1\<rparr>) = Inl AmbiguousPageBound
   \<and> paginator_page (get_paginator_for_queryset [g1, g2] [''id'']) None None None None
       = Inr \<lparr>page_items = [g1, g2], page_has_next = False, page_has_previous = False\<rparr>
   \<and> map edge_node (conn_edges (projr (connection_from_queryset [g1, g2]
                                          (list_args\<lparr>arg_first := None\<rparr>))))
       = [g1, g2]"
proof -
  note a = both_bounds_refused_neither_paged [of "list_args\<lparr>arg_last := Some 1\<rparr>" "[g1, g2]"]
  note b = both_bounds_refused_neither_paged [of "list_args\<lparr>arg_first := None\<rparr>" "[g1, g2]"]
  have run: "connection_from_queryset [g1, g2] (list_args\<lparr>arg_first := None\<rparr>)
      = Inr \<lparr>conn_edges = [\<lparr>edge_node = g1, edge_cursor = [Some (IntV 1)]\<rparr>,
                           \<lparr>edge_node = g2, edge_cursor = [Some (IntV 2)]\<rparr>],
            conn_page_info = \<lparr>start_cursor = Some [Some (IntV 1)], end_cursor = Some [Some (IntV 2)],
                              has_previous_page = False, has_next_page = False\<rparr>,
            conn_iterable = None, conn_length = None\<rparr>"
    by code_simp
  from a have "connection_from_queryset [g1, g2] (list_args\<lparr>arg_last := Some 1\<rparr>)
                 = Inl AmbiguousPageBound"
    by (simp add: list_args_def cursor_ok_def)
  moreover from b have
    "paginator_page (get_paginator_for_queryset [g1, g2] [''id'']) None None None None
       = Inr \<lparr>page_items = [g1, g2], page_has_next = False, page_has_previous = False\<rparr>"
    by (simp add: list_args_def)
  moreover from b run have
    "map edge_node (conn_edges (projr (connection_from_queryset [g1, g2]
                                          (list_args\<lparr>arg_first := None\<rparr>)))) = [g1, g2]"
    by simp
  ultimately show ?thesis by simp
qed

text \<open>
  The claim as first stated fails on a request for the groups that gives neither \<open>first\<close>
  nor \<open>last\<close>: pagination returns a page, with both groups.
\<close>

theorem neither_bound_counterexample:
  "arg_first (list_args\<lparr>arg_first := None\<rparr>) = None
   \<and> arg_last (list_args\<lparr>arg_first := None\<rparr>) = None
   \<and> connection_from_queryset [g1, g2] (list_args\<lparr>arg_first := None\<rparr>)
      = Inr \<lparr>conn_edges = [\<lparr>edge_node = g1, edge_cursor = [Some (IntV 1)]\<rparr>,
                           \<lparr>edge_node = g2, edge_cursor = [Some (IntV 2)]\<rparr>],
            conn_page_info = \<lparr>start_cursor = Some [Some (IntV 1)], end_cursor = Some [Some (IntV 2)],
                              has_previous_page = False, has_next_page = False\<rparr>,
            conn_iterable = None, conn_length = None\<rparr>"
proof -
  have "connection_from_queryset [g1, g2] (list_args\<lparr>arg_first := None\<rparr>)
      = Inr \<lparr>conn_edges = [\<lparr>edge_node = g1, edge_cursor = [Some (IntV 1)]\<rparr>,
                           \<lparr>edge_node = g2, edge_cursor = [Some (IntV 2)]\<rparr>],
            conn_page_info = \<lparr>start_cursor = Some [Some (IntV 1)], end_cursor = Some [Some (IntV 2)],
                              has_previous_page = False, has_next_page = False\<rparr>,
            conn_iterable = None, conn_length = None\<rparr>"
    by code_simp
  then show ?thesis by (simp add: list_args_def)
qed

subsection \<open>C7: an update loads its target before it is authorized\<close>

text \<open>
  C7, as amended. For every update mutation that passes the edge precondition, the target
  is loaded by identifier before any policy predicate is consulted: an identifier that
  resolves to no entity fails with the does-not-exist exception, whatever the policy and
  the serializer are; and when the entity exists with a truthy id and the input is valid,
  the outcome is decided by the policy's \<open>can_change\<close> on the loaded instance.
\<close>

theorem update_loads_target_first:
  assumes "''update'' \<in> set (mc_model_operations cls)"
    and "mc_model_class cls = Some model_class"
    and "map_of inp (mc_lookup_field cls) = Some id_val"
    and "\<not> (truthy_selection (map_of requested_fields ''edge'')
             \<and> \<not> truthy (map_of inp EDGE_ORDER_BY_INPUT_FIELD))"
  shows "(filter_id_first db id_val = Inr None \<longrightarrow>
            (\<forall>P S. mutate_and_get_payload
                      (cls\<lparr>mc_permission_class := P, mc_serializer_class := S\<rparr>)
                      requested_fields db usr inp
                    = (Inl (InstanceDoesNotExist model_class id_val), db)))
       \<and> (\<forall>inst kwargs.
            filter_id_first db id_val = Inr (Some inst) \<and> truthy_id (ent_id inst)
            \<and> kwargs = \<lparr>kw_instance = Some inst, kw_data = inp, kw_request_user = usr\<rparr>
            \<and> sc_is_valid (mc_serializer_class cls) kwargs \<longrightarrow>
            mutate_and_get_payload cls requested_fields db usr inp
              = (if can_change (mc_permission_class cls) db usr inst
                 then save_and_get_payload cls (serializer_init (mc_serializer_class cls) kwargs)
                        db inp
                 else (Inl raise_permission_error, db)))"
proof (intro conjI impI allI)
  fix P S
  assume nf: "filter_id_first db id_val = Inr None"
  have "get_serializer_kwargs (cls\<lparr>mc_permission_class := P, mc_serializer_class := S\<rparr>) db usr inp
          = Inl (InstanceDoesNotExist model_class id_val)"
    using assms(1,2,3) nf by (simp add: get_serializer_kwargs_def)
  then show "mutate_and_get_payload (cls\<lparr>mc_permission_class := P, mc_serializer_class := S\<rparr>)
               requested_fields db usr inp
             = (Inl (InstanceDoesNotExist model_class id_val), db)"
    using assms(4) by (auto simp: mutate_and_get_payload_def)
next
  fix inst kwargs
  assume h: "filter_id_first db id_val = Inr (Some inst) \<and> truthy_id (ent_id inst)
            \<and> kwargs = \<lparr>kw_instance = Some inst, kw_data = inp, kw_request_user = usr\<rparr>
            \<and> sc_is_valid (mc_serializer_class cls) kwargs"
  let ?ser = "serializer_init (mc_serializer_class cls) kwargs"
  have kw: "get_serializer_kwargs cls db usr inp = Inr kwargs"
    using assms(1,2,3) h by (simp add: get_serializer_kwargs_def)
  have inst: "ser_instance ?ser = Some inst"
    using h by (simp add: serializer_init_simps)
  have pm: "perform_mutate cls ?ser db usr inp
          = (if can_change (mc_permission_class cls) db usr inst
             then save_and_get_payload cls ?ser db inp
             else (Inl raise_permission_error, db))"
    using h inst by (simp add: perform_mutate_def)
  have "mutate_and_get_payload cls requested_fields db usr inp = perform_mutate cls ?ser db usr inp"
    using assms(4) kw h by (auto simp: mutate_and_get_payload_def serializer_init_simps Let_def)
  then show "mutate_and_get_payload cls requested_fields db usr inp
              = (if can_change (mc_permission_class cls) db usr inst
                 then save_and_get_payload cls ?ser db inp
                 else (Inl raise_permission_error, db))"
    using pm by simp
qed

text \<open>
  An update of the absent group 7, and the first request of
  \<open>test_can_update_based_on_permissions\<close>: user 1 updates group 2, which it does not belong to.
\<close>

theorem update_loads_target_first_witness:
  "mutate_and_get_payload GroupMutation ok_only [g1, g2] 1 (update_input 7 ''newName'')
     = (Inl (InstanceDoesNotExist ''Group'' (IInt 7)), [g1, g2])
   \<and> mutate_and_get_payload GroupMutation ok_only [g1, g2] 1 (update_input 2 ''newName'')
     = (Inl raise_permission_error, [g1, g2])"
proof -
  have rec: "GroupMutation\<lparr>mc_permission_class := GroupPermission,
                            mc_serializer_class := GroupMutationSerializer\<rparr> = GroupMutation"
    by (simp add: GroupMutation_def)
  have 1: "''update'' \<in> set (mc_model_operations GroupMutation)"
    by (simp add: GroupMutation_def)
  have 2: "mc_model_class GroupMutation = Some ''Group''"
    by (simp add: GroupMutation_def)
  have 3: "map_of (update_input i n) (mc_lookup_field GroupMutation) = Some (IInt i)" for i n
    by (simp add: GroupMutation_def update_input_def)
  have 4: "\<not> (truthy_selection (map_of ok_only ''edge'')
             \<and> \<not> truthy (map_of (update_input i n) EDGE_ORDER_BY_INPUT_FIELD))" for i n
    by (simp add: ok_only_def)
  have nf: "filter_id_first [g1, g2] (IInt 7) = Inr None"
    by (simp add: g1_def g2_def)
  have f: "filter_id_first [g1, g2] (IInt 2) = Inr (Some g2)"
    by (simp add: g1_def g2_def)
  have t: "truthy_id (ent_id g2)"
    by (simp add: g2_def)
  have v: "sc_is_valid (mc_serializer_class GroupMutation)
             \<lparr>kw_instance = Some g2, kw_data = update_input 2 ''newName'', kw_request_user = 1\<rparr>"
    by (simp add: GroupMutation_def GroupMutationSerializer_def name_of_input_def update_input_def)
  have d: "\<not> can_change (mc_permission_class GroupMutation) [g1, g2] 1 g2"
    by (simp add: GroupMutation_def GroupPermission_def member_of_def g1_def g2_def)
  note a = update_loads_target_first [OF 1 2 3 [of 7 "''newName''"] 4 [of 7 "''newName''"],
      where db = "[g1, g2]" and usr = 1]
  note b = update_loads_target_first [OF 1 2 3 [of 2 "''newName''"] 4 [of 2 "''newName''"],
      where db = "[g1, g2]" and usr = 1]
  from a nf have "mutate_and_get_payload
        (GroupMutation\<lparr>mc_permission_class := GroupPermission,
                        mc_serializer_class := GroupMutationSerializer\<rparr>)
        ok_only [g1, g2] 1 (update_input 7 ''newName'')
     = (Inl (InstanceDoesNotExist ''Group'' (IInt 7)), [g1, g2])"
    by blast
  moreover from b f t v d have
    "mutate_and_get_payload GroupMutation ok_only [g1, g2] 1 (update_input 2 ''newName'')
     = (Inl raise_permission_error, [g1, g2])"
    by simp
  ultimately show ?thesis by (simp add: rec)
qed

text \<open>
  The claim as first stated fails on an update of the absent group 7 that also selects
  the edge without an ordering: the edge precondition is checked first, so the request
  ends in the missing-ordering exception and not in the does-not-exist one.
\<close>

theorem update_loads_target_first_counterexample:
  "filter_id_first [g1, g2] (IInt 7) = Inr None
   \<and> fst (mutate_and_get_payload GroupMutation ok_and_edge [g1, g2] 1 (update_input 7 ''newName''))
       = Inl (PyException missing_edge_ordering_message)
   \<and> fst (mutate_and_get_payload GroupMutation ok_and_edge [g1, g2] 1 (update_input 7 ''newName''))
       \<noteq> Inl (InstanceDoesNotExist ''Group'' (IInt 7))"
proof -
  have "mutate_and_get_payload GroupMutation ok_and_edge [g1, g2] 1 (update_input 7 ''newName'')
          = (Inl (PyException missing_edge_ordering_message), [g1, g2])"
    by (simp add: mutate_and_get_payload_def ok_and_edge_def update_input_def
        EDGE_ORDER_BY_INPUT_FIELD_def)
  moreover have "filter_id_first [g1, g2] (IInt 7) = Inr None"
    by (simp add: g1_def g2_def)
  ultimately show ?thesis by simp
qed

subsection \<open>C8: the authorization predicate follows the truth value of the id\<close>

text \<open>
  C8. In \<open>perform_mutate\<close> the object is the serializer's instance or, without one, the
  object it builds. The authorization predicate is chosen by whether that object's id is
  truthy: with a truthy id the outcome is decided by \<open>can_change\<close> and does not depend on
  \<open>can_add\<close>; otherwise it is decided by \<open>can_add\<close> and does not depend on \<open>can_change\<close>. So a
  creation whose built object carries a preset id is authorized through \<open>can_change\<close> and
  never through \<open>can_add\<close>.
\<close>

theorem authorization_predicate_by_truthy_id:
  assumes "obj = (case ser_instance ser of Some inst \<Rightarrow> inst | None \<Rightarrow> ser_build_obj ser)"
    and "P = mc_permission_class cls"
  shows "(truthy_id (ent_id obj) \<longrightarrow>
            perform_mutate cls ser db usr inp
              = (if can_change P db usr obj then save_and_get_payload cls ser db inp
                 else (Inl raise_permission_error, db))
            \<and> (\<forall>f. perform_mutate (cls\<lparr>mc_permission_class := P\<lparr>can_add := f\<rparr>\<rparr>) ser db usr inp
                     = perform_mutate cls ser db usr inp))
       \<and> (\<not> truthy_id (ent_id obj) \<longrightarrow>
            perform_mutate cls ser db usr inp
              = (if can_add P db usr obj then save_and_get_payload cls ser db inp
                 else (Inl raise_permission_error, db))
            \<and> (\<forall>f. perform_mutate (cls\<lparr>mc_permission_class := P\<lparr>can_change := f\<rparr>\<rparr>) ser db usr inp
                     = perform_mutate cls ser db usr inp))"
  using assms
  by (simp add: perform_mutate_def Let_def save_and_get_payload_permission_class)

text \<open>
  A creation by user 1 whose built object carries the id 9: \<open>can_add\<close> would allow it, but
  \<open>can_change\<close> is asked and denies. The same creation with no preset id is allowed by
  \<open>can_add\<close> and saved as group 3.
\<close>

theorem authorization_predicate_by_truthy_id_witness:
  "perform_mutate (GroupMutation\<lparr>mc_serializer_class := PresetIdSerializer\<rparr>)
      (serializer_init PresetIdSerializer
         \<lparr>kw_instance = None, kw_data = create_input ''fresh'', kw_request_user = 1\<rparr>)
      [g1, g2] 1 (create_input ''fresh'')
     = (Inl raise_permission_error, [g1, g2])
   \<and> can_add GroupPermission [g1, g2] 1 \<lparr>ent_id = Some 9, ent_attrs = [(''name'', StrV ''fresh'')]\<rparr>
   \<and> fst (perform_mutate GroupMutation
      (serializer_init GroupMutationSerializer
         \<lparr>kw_instance = None, kw_data = create_input ''fresh'', kw_request_user = 1\<rparr>)
      [g1, g2] 1 (create_input ''fresh''))
     = Inr \<lparr>pl_errors = None, pl_ok = True,
            pl_result = Some \<lparr>ent_id = Some 3, ent_attrs = [(''name'', StrV ''fresh'')]\<rparr>,
            pl_edge = None\<rparr>"
proof -
  let ?kw = "\<lparr>kw_instance = None, kw_data = create_input ''fresh'', kw_request_user = 1\<rparr>"
  let ?preset = "\<lparr>ent_id = Some 9, ent_attrs = [(''name'', StrV ''fresh'')]\<rparr>"
  let ?built = "\<lparr>ent_id = None, ent_attrs = [(''name'', StrV ''fresh'')]\<rparr>"
  have o1: "?preset = (case ser_instance (serializer_init PresetIdSerializer ?kw) of
                         Some inst \<Rightarrow> inst
                       | None \<Rightarrow> ser_build_obj (serializer_init PresetIdSerializer ?kw))"
    by (simp add: serializer_init_def PresetIdSerializer_def name_of_input_def create_input_def)
  have p1: "GroupPermission
              = mc_permission_class (GroupMutation\<lparr>mc_serializer_class := PresetIdSerializer\<rparr>)"
    by (simp add: GroupMutation_def)
  have o2: "?built = (case ser_instance (serializer_init GroupMutationSerializer ?kw) of
                         Some inst \<Rightarrow> inst
                       | None \<Rightarrow> ser_build_obj (serializer_init GroupMutationSerializer ?kw))"
    by (simp add: serializer_init_def GroupMutationSerializer_def name_of_input_def create_input_def)
  have p2: "GroupPermission = mc_permission_class GroupMutation"
    by (simp add: GroupMutation_def)
  have add: "can_add GroupPermission [g1, g2] 1 ?preset" "can_add GroupPermission [g1, g2] 1 ?built"
    by (simp_all add: GroupPermission_def DISALLOW_CREATION_def)
  have chg: "\<not> can_change GroupPermission [g1, g2] 1 ?preset"
    by (simp add: GroupPermission_def member_of_def g1_def g2_def)
  have sv: "fst (save_and_get_payload GroupMutation (serializer_init GroupMutationSerializer ?kw)
               [g1, g2] (create_input ''fresh''))
            = Inr \<lparr>pl_errors = None, pl_ok = True,
                   pl_result = Some \<lparr>ent_id = Some 3, ent_attrs = [(''name'', StrV ''fresh'')]\<rparr>,
                   pl_edge = None\<rparr>"
    by code_simp
  note a = authorization_predicate_by_truthy_id [OF o1 p1, of "[g1, g2]" 1 "create_input ''fresh''"]
  note b = authorization_predicate_by_truthy_id [OF o2 p2, of "[g1, g2]" 1 "create_input ''fresh''"]
  from a chg have "perform_mutate (GroupMutation\<lparr>mc_serializer_class := PresetIdSerializer\<rparr>)
      (serializer_init PresetIdSerializer ?kw) [g1, g2] 1 (create_input ''fresh'')
     = (Inl raise_permission_error, [g1, g2])"
    by simp
  moreover from b add(2) have "perform_mutate GroupMutation
      (serializer_init GroupMutationSerializer ?kw) [g1, g2] 1 (create_input ''fresh'')
     = save_and_get_payload GroupMutation (serializer_init GroupMutationSerializer ?kw)
               [g1, g2] (create_input ''fresh'')"
    by simp
  ultimately show ?thesis using add(1) sv by simp
qed

subsection \<open>C9: a permissioned single-related-entity field\<close>

text \<open>
  C9. When the underlying resolver of a permissioned field returns, the field's resolver
  raises an error exactly when the value returned is an entity (not \<open>None\<close>) that the
  type's \<open>can_view\<close> check rejects, and the error is then the permission error naming the
  type; otherwise the value is returned as it is. For \<open>None\<close> no permission check is made:
  \<open>None\<close> is returned whatever the type, its policy and the table are.
\<close>

theorem field_permission_check:
  assumes "res root kwargs = Inr r"
  shows "(isl (resolve_with_permission_check T res db usr root kwargs)
            \<longleftrightarrow> (\<exists>inst. r = Some inst \<and> \<not> can_view (pt_permission_class T) db usr inst))
       \<and> (isl (resolve_with_permission_check T res db usr root kwargs)
            \<longrightarrow> resolve_with_permission_check T res db usr root kwargs
                = Inl (GraphQLError (''You do not have permission to view this ''
                        @ pt_model_name T @ '' instance.'')))
       \<and> (\<not> isl (resolve_with_permission_check T res db usr root kwargs)
            \<longrightarrow> resolve_with_permission_check T res db usr root kwargs = Inr r)
       \<and> (r = None
            \<longrightarrow> (\<forall>T' db'. resolve_with_permission_check T' res db' usr root kwargs = Inr None))"
  using assms
  by (cases r) (auto simp: resolve_with_permission_check_def ensure_user_can_view_instance_def)

text \<open>
  User 1 reaches group 2 (denied), group 1 (returned) and no group (\<open>None\<close>) through a
  related field.
\<close>

theorem field_permission_check_witness:
  "isl (resolve_with_permission_check GroupType (\<lambda>(r::unit) (k::unit). Inr (Some g2)) [g1, g2] 1 () ())
   \<and> resolve_with_permission_check GroupType (\<lambda>(r::unit) (k::unit). Inr (Some g2)) [g1, g2] 1 () ()
       = Inl (GraphQLError ''You do not have permission to view this Group instance.'')
   \<and> resolve_with_permission_check GroupType (\<lambda>(r::unit) (k::unit). Inr (Some g1)) [g1, g2] 1 () ()
       = Inr (Some g1)
   \<and> resolve_with_permission_check GroupType (\<lambda>(r::unit) (k::unit). Inr None) [g1, g2] 1 () ()
       = Inr None"
proof -
  have denied: "\<not> can_view (pt_permission_class GroupType) [g1, g2] 1 g2"
    by (simp add: GroupType_def GroupPermission_def member_of_def g1_def g2_def)
  have allowed: "can_view (pt_permission_class GroupType) [g1, g2] 1 g1"
    by (simp add: GroupType_def GroupPermission_def member_of_def g1_def g2_def)
  have name: "pt_model_name GroupType = ''Group''"
    by (simp add: GroupType_def)
  note a = field_permission_check [of "\<lambda>(r::unit) (k::unit). Inr (Some g2)" "()" "()" "Some g2"
      GroupType "[g1, g2]" 1, OF refl]
  note b = field_permission_check [of "\<lambda>(r::unit) (k::unit). Inr (Some g1)" "()" "()" "Some g1"
      GroupType "[g1, g2]" 1, OF refl]
  note c = field_permission_check [of "\<lambda>(r::unit) (k::unit). Inr None" "()" "()" None
      GroupType "[g1, g2]" 1, OF refl]
  show ?thesis
    using a b c denied allowed name by auto
qed

subsection \<open>C10: node identifiers are raw database ids\<close>

text \<open>
  C10. For every type and every identifier, \<open>to_global_id\<close> returns the identifier
  unchanged, and \<open>from_global_id\<close> raises the not-implemented error for every input.
\<close>

theorem to_global_id_identity:
  "to_global_id t i = i
   \<and> from_global_id g = Inl (NotImplementedError ''from_global_id has yet to be implemented'')"
  by (simp add: to_global_id_def from_global_id_def)

end
